theory Spec2Isabelle
  imports Complex_Main
begin

section \<open>JavaScript values used by the services\<close>

text \<open>
  An optional GraphQL argument (\<^verbatim>\<open>nullable: true\<close>) reaches the resolver as
  \<^verbatim>\<open>undefined\<close> when it is omitted, as \<^verbatim>\<open>null\<close> when it is given as null, and as a
  value otherwise.
\<close>

datatype 'a js_arg = Undefined | Null | Given 'a

text \<open>
  A JavaScript number as the services meet it: a finite value, \<^verbatim>\<open>NaN\<close> (from
  \<^verbatim>\<open>Number(undefined)\<close>) or \<^verbatim>\<open>-Infinity\<close> (from \<^verbatim>\<open>Math.max()\<close> of no argument).
\<close>

datatype 'a number = NaN | NegInfinity | Num 'a

text \<open>\<^verbatim>\<open>Number(x)\<close> on an optional integer argument.\<close>

fun Number :: "int js_arg \<Rightarrow> int number" where
  "Number Undefined = NaN"
| "Number Null = Num 0"
| "Number (Given n) = Num n"

text \<open>\<^verbatim>\<open>x ?? d\<close>: the default replaces \<^verbatim>\<open>undefined\<close> and \<^verbatim>\<open>null\<close> only.\<close>

fun nullish :: "'a js_arg \<Rightarrow> 'a \<Rightarrow> 'a" where
  "nullish Undefined d = d"
| "nullish Null d = d"
| "nullish (Given x) d = x"

text \<open>
  \<^verbatim>\<open>Math.max(...xs)\<close> on finite values: it starts from \<^verbatim>\<open>-Infinity\<close> and keeps the
  greater value, so the maximum of no argument is \<^verbatim>\<open>-Infinity\<close>.
\<close>

fun max_step :: "'a::linorder number \<Rightarrow> 'a \<Rightarrow> 'a number" where
  "max_step NaN x = NaN"
| "max_step NegInfinity x = Num x"
| "max_step (Num m) x = Num (max m x)"

definition Math_max :: "'a::linorder list \<Rightarrow> 'a number" where
  "Math_max xs = foldl max_step NegInfinity xs"

text \<open>
  Strings are lists of code units below 256 (the Latin-1 block).
  \<^verbatim>\<open>toLowerCase\<close> maps A-Z and the accented capitals U+00C0-U+00DE (U+00D7, the
  multiplication sign, apart) to the letter 32 places further, which sets bit 5.
\<close>

fun toLowerCase_char :: "char \<Rightarrow> char" where
  "toLowerCase_char (Char b0 b1 b2 b3 b4 b5 b6 b7) =
     (let n = of_char (Char b0 b1 b2 b3 b4 b5 b6 b7) :: nat
      in if (65 \<le> n \<and> n \<le> 90) \<or> (192 \<le> n \<and> n \<le> 222 \<and> n \<noteq> 215)
         then Char b0 b1 b2 b3 b4 True b6 b7
         else Char b0 b1 b2 b3 b4 b5 b6 b7)"

definition toLowerCase :: "string \<Rightarrow> string" where
  "toLowerCase s = map toLowerCase_char s"

text \<open>
  White space and line terminators of ECMAScript below 256: TAB, LF, VT, FF, CR, SP
  and NBSP. \<^verbatim>\<open>trim\<close> removes them at both ends.
\<close>

definition isWhiteSpace :: "char \<Rightarrow> bool" where
  "isWhiteSpace c = ((of_char c :: nat) \<in> {9, 10, 11, 12, 13, 32, 160})"

definition trim :: "string \<Rightarrow> string" where
  "trim s = rev (dropWhile isWhiteSpace (rev (dropWhile isWhiteSpace s)))"

subsection \<open>A plain object used as a table of counters\<close>

text \<open>
  What \<^verbatim>\<open>speciesCount[key]\<close> can hold or read: a number, a string, or an object
  (a function included) inherited from \<^verbatim>\<open>Object.prototype\<close>, kept as the text
  that \<^verbatim>\<open>String\<close> gives for it.
\<close>

datatype jsval = JNumber nat | JString string | JObject string

text \<open>
  An object literal \<^verbatim>\<open>{}\<close> is the list of its own properties in creation order; it
  inherits the members of \<^verbatim>\<open>Object.prototype\<close>, listed with their texts.
\<close>

type_synonym js_object = "(string \<times> jsval) list"

definition native_function :: "string \<Rightarrow> string" where
  "native_function f = ''function '' @ f @ ''() { [native code] }''"

definition Object_prototype :: "(string \<times> string) list" where
  "Object_prototype =
     [(''constructor'', native_function ''Object''),
      (''__defineGetter__'', native_function ''__defineGetter__''),
      (''__defineSetter__'', native_function ''__defineSetter__''),
      (''hasOwnProperty'', native_function ''hasOwnProperty''),
      (''__lookupGetter__'', native_function ''__lookupGetter__''),
      (''__lookupSetter__'', native_function ''__lookupSetter__''),
      (''isPrototypeOf'', native_function ''isPrototypeOf''),
      (''propertyIsEnumerable'', native_function ''propertyIsEnumerable''),
      (''toString'', native_function ''toString''),
      (''valueOf'', native_function ''valueOf''),
      (''toLocaleString'', native_function ''toLocaleString''),
      (''__proto__'', ''[object Object]'')]"

text \<open>\<^verbatim>\<open>obj[key]\<close>: the own property, else the inherited one, else \<^verbatim>\<open>undefined\<close>.\<close>

definition js_get :: "js_object \<Rightarrow> string \<Rightarrow> jsval option" where
  "js_get obj key =
     (case map_of obj key of
        Some v \<Rightarrow> Some v
      | None \<Rightarrow> map_option JObject (map_of Object_prototype key))"

text \<open>\<^verbatim>\<open>v || 0\<close>: 0, the empty string and \<^verbatim>\<open>undefined\<close> are falsy, an object is truthy.\<close>

fun or_zero :: "jsval option \<Rightarrow> jsval" where
  "or_zero None = JNumber 0"
| "or_zero (Some (JNumber n)) = JNumber n"
| "or_zero (Some (JString s)) = (if s = [] then JNumber 0 else JString s)"
| "or_zero (Some (JObject t)) = JObject t"

text \<open>
  \<^verbatim>\<open>v + 1\<close>: addition on a number; on a string, and on an object through its text,
  the concatenation with \<^verbatim>\<open>"1"\<close>.
\<close>

fun plus_one :: "jsval \<Rightarrow> jsval" where
  "plus_one (JNumber n) = JNumber (n + 1)"
| "plus_one (JString s) = JString (s @ ''1'')"
| "plus_one (JObject t) = JString (t @ ''1'')"

text \<open>
  \<^verbatim>\<open>obj[key] = v\<close> for a number or a string \<open>v\<close>: the key \<^verbatim>\<open>__proto__\<close> is the
  accessor of \<^verbatim>\<open>Object.prototype\<close>, whose setter ignores such a value; any other
  key updates the own property or creates it after the others.
\<close>

definition js_set :: "js_object \<Rightarrow> string \<Rightarrow> jsval \<Rightarrow> js_object" where
  "js_set obj key v =
     (if key = ''__proto__'' then obj
      else if key \<in> fst ` set obj
      then map (\<lambda>(k, old). if k = key then (k, v) else (k, old)) obj
      else obj @ [(key, v)])"

text \<open>
  \<^verbatim>\<open>Object.entries(obj)\<close>: the keys that are array indices (canonical decimal
  numerals up to \<open>2\<^sup>3\<^sup>2 - 2\<close>) come first in ascending order, the other keys follow
  in creation order.
\<close>

definition isDigit :: "char \<Rightarrow> bool" where
  "isDigit c = (48 \<le> (of_char c :: nat) \<and> (of_char c :: nat) \<le> 57)"

definition arrayIndex :: "string \<Rightarrow> nat option" where
  "arrayIndex key =
     (if key \<noteq> [] \<and> list_all isDigit key \<and> (key = ''0'' \<or> hd key \<noteq> CHR ''0'')
      then (let n = foldl (\<lambda>acc c. 10 * acc + (of_char c - 48)) 0 key
            in if n \<le> 4294967294 then Some n else None)
      else None)"

definition Object_entries :: "js_object \<Rightarrow> (string \<times> jsval) list" where
  "Object_entries obj =
     sort_key (\<lambda>(k, v). case arrayIndex k of Some n \<Rightarrow> n | None \<Rightarrow> 0)
       (filter (\<lambda>(k, v). arrayIndex k \<noteq> None) obj)
     @ filter (\<lambda>(k, v). arrayIndex k = None) obj"

text \<open>
  \<^verbatim>\<open>b[1] - a[1]\<close>: the difference of two numbers; a string that is the text of a
  member of \<^verbatim>\<open>Object.prototype\<close> followed by 1s is no numeral, so the difference
  is \<^verbatim>\<open>NaN\<close> as soon as one side is not a number.
\<close>

fun js_minus :: "jsval \<Rightarrow> jsval \<Rightarrow> int number" where
  "js_minus (JNumber m) (JNumber n) = Num (int m - int n)"
| "js_minus _ _ = NaN"

text \<open>
  \<^verbatim>\<open>Array.prototype.sort(comparefn)\<close> is stable: \<open>x\<close> stays before a later \<open>y\<close>
  unless the comparison is positive, and \<^verbatim>\<open>NaN\<close> counts as 0. When the comparison
  is not a consistent order (numbers that differ mixed with strings) ECMAScript leaves
  the result to the engine; the model is then the stable insertion below.
\<close>

fun before_or_equal :: "int number \<Rightarrow> bool" where
  "before_or_equal (Num d) = (d \<le> 0)"
| "before_or_equal _ = True"

fun sort_insert :: "('a \<Rightarrow> 'a \<Rightarrow> int number) \<Rightarrow> 'a \<Rightarrow> 'a list \<Rightarrow> 'a list" where
  "sort_insert comparefn x [] = [x]"
| "sort_insert comparefn x (y # ys) =
     (if before_or_equal (comparefn x y) then x # y # ys
      else y # sort_insert comparefn x ys)"

definition Array_sort :: "('a \<Rightarrow> 'a \<Rightarrow> int number) \<Rightarrow> 'a list \<Rightarrow> 'a list" where
  "Array_sort comparefn xs = foldr (sort_insert comparefn) xs []"

section \<open>Entities, inputs, result models and the record store\<close>

text \<open>
  The result models and the input objects come first, so that an unqualified field name
  (\<open>species\<close>, \<open>weight\<close>, \<open>ownerId\<close>, ...) is the field of the entity.
\<close>

record MostCommonSpecies =
  species :: string
  count :: jsval
  specieTranslated :: string

record TopOwner =
  ownerId :: int
  fullName :: string
  count :: nat

record HeaviestGroup =
  ownerId :: int
  fullName :: string
  totalWeight :: real

record HeaviestAnimal =
  animalId :: int
  name :: string
  species :: string
  weight :: real
  ownerFullName :: string
  ownerId :: int

record CreateAnimalInput =
  name :: string
  dateOfBirth :: int
  species :: string
  breed :: string
  color :: string
  weight :: real
  ownerId :: int

text \<open>
  Every field of an update input is \<^verbatim>\<open>nullable: true\<close>: absent, null or given.
\<close>

record UpdateAnimalInput =
  name :: "string js_arg"
  dateOfBirth :: "int js_arg"
  species :: "string js_arg"
  breed :: "string js_arg"
  color :: "string js_arg"
  weight :: "real js_arg"
  ownerId :: "int js_arg"

record UpdatePersonInput =
  lastName :: "string js_arg"
  firstName :: "string js_arg"
  email :: "string js_arg"
  phoneNumber :: "string js_arg"

text \<open>
  The two entities. The primary key \<^verbatim>\<open>id\<close> is named per entity. A date is its time
  value (milliseconds since the epoch); a weight is a real number. \<open>ownerId\<close> is the
  foreign-key column behind the \<^verbatim>\<open>owner\<close> relation of \<^verbatim>\<open>Animal\<close>.
\<close>

record Person =
  person_id :: int
  lastName :: string
  firstName :: string
  email :: string
  phoneNumber :: string

record Animal =
  animal_id :: int
  name :: string
  dateOfBirth :: int
  species :: string
  breed :: string
  color :: string
  weight :: real
  ownerId :: "int option"

text \<open>Entities loaded with a relation (\<^verbatim>\<open>relations: ['animals']\<close>, \<^verbatim>\<open>relations: ['owner']\<close>).\<close>

record AnimalWithOwner = Animal +
  owner :: "Person option"

record TranslatedAnimal = AnimalWithOwner +
  breedTranslated :: string
  colorTranslated :: string
  specieTranslated :: string

record PaginatedAnimals =
  animals :: "AnimalWithOwner list"
  totalCount :: nat

record PersonWithAnimals = Person +
  animals :: "Animal list"

record PaginatedPersons =
  persons :: "PersonWithAnimals list"
  totalCount :: nat

text \<open>
  The record store: both tables in scan order, the next generated animal id, and
  whether the database answers. When it does not, every repository call throws.
\<close>

record store =
  personTable :: "Person list"
  animalTable :: "Animal list"
  nextAnimalId :: int
  connected :: bool

datatype exception =
    NotFoundException
  | BadRequestException
  | InternalServerErrorException
  | DriverError
  | TypeError

text \<open>\<^verbatim>\<open>try { body } catch (error) { handler }\<close>.\<close>

definition try_catch :: "exception + 'a \<Rightarrow> (exception \<Rightarrow> exception + 'a) \<Rightarrow> exception + 'a" where
  "try_catch body handler = (case body of Inl error \<Rightarrow> handler error | Inr v \<Rightarrow> Inr v)"

definition loadAnimals :: "store \<Rightarrow> Person \<Rightarrow> PersonWithAnimals" where
  "loadAnimals db p =
     Person.extend p
       (PersonWithAnimals.fields (filter (\<lambda>a. ownerId a = Some (person_id p)) (animalTable db)))"

definition loadOwner :: "store \<Rightarrow> Animal \<Rightarrow> AnimalWithOwner" where
  "loadOwner db a =
     Animal.extend a
       (AnimalWithOwner.fields
          (case ownerId a of
             None \<Rightarrow> None
           | Some i \<Rightarrow> find (\<lambda>p. person_id p = i) (personTable db)))"

text \<open>\<^verbatim>\<open>personRepository.find({ relations: ['animals'] })\<close>.\<close>

definition personRepository_find_animals :: "store \<Rightarrow> exception + PersonWithAnimals list" where
  "personRepository_find_animals db =
     (if connected db then Inr (map (loadAnimals db) (personTable db)) else Inl DriverError)"

text \<open>\<^verbatim>\<open>personRepository.findOneBy({ id })\<close>.\<close>

definition personRepository_findOneBy :: "store \<Rightarrow> int \<Rightarrow> exception + Person option" where
  "personRepository_findOneBy db i =
     (if connected db then Inr (find (\<lambda>p. person_id p = i) (personTable db)) else Inl DriverError)"

text \<open>\<^verbatim>\<open>animalRepository.find()\<close> and \<^verbatim>\<open>animalRepository.find({ relations: ['owner'] })\<close>.\<close>

definition animalRepository_find :: "store \<Rightarrow> exception + Animal list" where
  "animalRepository_find db = (if connected db then Inr (animalTable db) else Inl DriverError)"

definition animalRepository_find_owner :: "store \<Rightarrow> exception + AnimalWithOwner list" where
  "animalRepository_find_owner db =
     (if connected db then Inr (map (loadOwner db) (animalTable db)) else Inl DriverError)"

text \<open>\<^verbatim>\<open>animalRepository.findOne({ where: { id }, relations: ['owner'] })\<close>.\<close>

definition animalRepository_findOne_owner :: "store \<Rightarrow> int \<Rightarrow> exception + AnimalWithOwner option" where
  "animalRepository_findOne_owner db i =
     (if connected db
      then Inr (map_option (loadOwner db) (find (\<lambda>a. animal_id a = i) (animalTable db)))
      else Inl DriverError)"

section \<open>Paged queries of the query builder\<close>

text \<open>
  \<^verbatim>\<open>query.skip(s).take(t).getManyAndCount()\<close> on a query with a join, over the entities
  that match in scan order. \<^verbatim>\<open>skip\<close> and \<^verbatim>\<open>take\<close> throw when their
  argument is \<^verbatim>\<open>NaN\<close>. When both are 0 no paging is applied; otherwise
  \<^verbatim>\<open>LIMIT t OFFSET s\<close> is sent to MySQL, which the driver or the server refuses
  unless the limit is positive and the offset is not negative. The count is taken over
  all matching entities, without \<^verbatim>\<open>skip\<close> and \<^verbatim>\<open>take\<close>.
\<close>

fun getManyAndCount :: "store \<Rightarrow> int number \<Rightarrow> int number \<Rightarrow> 'a list \<Rightarrow> exception + 'a list \<times> nat" where
  "getManyAndCount db (Num s) (Num t) matching =
     (if \<not> connected db then Inl DriverError
      else if s = 0 \<and> t = 0 then Inr (matching, length matching)
      else if s < 0 \<or> t \<le> 0 then Inl DriverError
      else Inr (take (nat t) (drop (nat s) matching), length matching))"
| "getManyAndCount db _ _ matching = Inl DriverError"

text \<open>\<^verbatim>\<open>if (species)\<close>: an absent, null or empty string is falsy.\<close>

fun truthy_string :: "string js_arg \<Rightarrow> bool" where
  "truthy_string (Given s) = (s \<noteq> [])"
| "truthy_string _ = False"

section \<open>PersonService and PersonResolver: list, lookup, update\<close>

text \<open>
  The service pages the owners, each loaded with its animals; the resolver replaces an
  absent \<open>start\<close> by 0 and an absent \<open>limit\<close> by 12.
\<close>

definition PersonService_findAll :: "store \<Rightarrow> int \<Rightarrow> int \<Rightarrow> exception + PaginatedPersons" where
  "PersonService_findAll db start limit =
     try_catch
       (case getManyAndCount db (Num start) (Num limit) (map (loadAnimals db) (personTable db)) of
          Inl error \<Rightarrow> Inl error
        | Inr (persons', totalCount') \<Rightarrow>
            Inr \<lparr>persons = persons', totalCount = totalCount'\<rparr>)
       (\<lambda>error. Inl InternalServerErrorException)"

definition paginatedPersons :: "store \<Rightarrow> int js_arg \<Rightarrow> int js_arg \<Rightarrow> exception + PaginatedPersons" where
  "paginatedPersons db start limit = PersonService_findAll db (nullish start 0) (nullish limit 12)"

definition PersonService_findOne :: "store \<Rightarrow> int \<Rightarrow> exception + Person" where
  "PersonService_findOne db i =
     try_catch
       (case personRepository_findOneBy db i of
          Inl error \<Rightarrow> Inl error
        | Inr None \<Rightarrow> Inl NotFoundException
        | Inr (Some person) \<Rightarrow> Inr person)
       (\<lambda>error. if error = NotFoundException then Inl error
                else Inl InternalServerErrorException)"

text \<open>
  \<^verbatim>\<open>Object.assign(person, data)\<close> copies the fields present in the input. A null is
  copied too; the columns are not nullable, so the save of such an entity is refused.
\<close>

fun assigned :: "'a js_arg \<Rightarrow> 'a \<Rightarrow> 'a" where
  "assigned (Given v) old = v"
| "assigned _ old = old"

definition assign_person :: "Person \<Rightarrow> UpdatePersonInput \<Rightarrow> Person" where
  "assign_person person data =
     person\<lparr>lastName := assigned (UpdatePersonInput.lastName data) (lastName person),
            firstName := assigned (UpdatePersonInput.firstName data) (firstName person),
            email := assigned (UpdatePersonInput.email data) (email person),
            phoneNumber := assigned (UpdatePersonInput.phoneNumber data) (phoneNumber person)\<rparr>"

definition person_nulls :: "UpdatePersonInput \<Rightarrow> bool" where
  "person_nulls data =
     (UpdatePersonInput.lastName data = Null \<or> UpdatePersonInput.firstName data = Null
      \<or> UpdatePersonInput.email data = Null \<or> UpdatePersonInput.phoneNumber data = Null)"

text \<open>\<^verbatim>\<open>personRepository.save(person)\<close> of an entity that has its row.\<close>

definition personRepository_save :: "store \<Rightarrow> bool \<Rightarrow> Person \<Rightarrow> (exception + Person) \<times> store" where
  "personRepository_save db nulls person =
     (if \<not> connected db \<or> nulls then (Inl DriverError, db)
      else (Inr person,
            db\<lparr>personTable :=
                  map (\<lambda>row. if person_id row = person_id person then person else row)
                    (personTable db)\<rparr>))"

text \<open>
  The services that write return the outcome and the store after the call. The
  handler of \<^verbatim>\<open>PersonService.update\<close> has no branch for \<^verbatim>\<open>NotFoundException\<close>.
\<close>

definition try_catch_store ::
  "(exception + 'a) \<times> store \<Rightarrow> (exception \<Rightarrow> exception + 'a) \<Rightarrow> (exception + 'a) \<times> store" where
  "try_catch_store body handler = (try_catch (fst body) handler, snd body)"

definition PersonService_update :: "store \<Rightarrow> int \<Rightarrow> UpdatePersonInput \<Rightarrow> (exception + Person) \<times> store" where
  "PersonService_update db i data =
     try_catch_store
       (case personRepository_findOneBy db i of
          Inl error \<Rightarrow> (Inl error, db)
        | Inr None \<Rightarrow> (Inl NotFoundException, db)
        | Inr (Some person) \<Rightarrow>
            personRepository_save db (person_nulls data) (assign_person person data))
       (\<lambda>error. Inl InternalServerErrorException)"

section \<open>PersonService: the aggregates\<close>

definition person_fullName :: "'a Person_scheme \<Rightarrow> string" where
  "person_fullName person = firstName person @ '' '' @ lastName person"

definition findTopOwners :: "store \<Rightarrow> exception + TopOwner list" where
  "findTopOwners db =
     try_catch
       (case personRepository_find_animals db of
          Inl error \<Rightarrow> Inl error
        | Inr persons' \<Rightarrow>
            if length persons' = 0 then Inr []
            else
              let ownersWithCount =
                    map (\<lambda>person. \<lparr>TopOwner.ownerId = person_id person,
                                    fullName = person_fullName person,
                                    count = length (animals person)\<rparr>) persons';
                  maxCount = Math_max (map TopOwner.count ownersWithCount)
              in Inr (filter (\<lambda>owner. Num (TopOwner.count owner) = maxCount) ownersWithCount))
       (\<lambda>error. Inl InternalServerErrorException)"

definition findTopOwnersBySpecies :: "store \<Rightarrow> string \<Rightarrow> exception + TopOwner list" where
  "findTopOwnersBySpecies db species' =
     try_catch
       (if species' = [] \<or> trim species' = [] then Inl BadRequestException
        else
          let speciesLower = toLowerCase species' in
          case personRepository_find_animals db of
            Inl error \<Rightarrow> Inl error
          | Inr persons' \<Rightarrow>
              let ownersWithCount =
                    map (\<lambda>person. \<lparr>TopOwner.ownerId = person_id person,
                                    fullName = person_fullName person,
                                    count = length (filter (\<lambda>a. toLowerCase (species a) = speciesLower)
                                                      (animals person))\<rparr>) persons';
                  maxCount = Math_max (map TopOwner.count ownersWithCount)
              in Inr (filter (\<lambda>o'. Num (TopOwner.count o') = maxCount \<and> TopOwner.count o' > 0)
                        ownersWithCount))
       (\<lambda>error. if error = BadRequestException then Inl error
                else Inl InternalServerErrorException)"

text \<open>
  The total weight is \<^verbatim>\<open>reduce((sum, animal) => sum + animal.weight, 0)\<close>. The
  addition of two doubles rounds its result, so it is not the addition of the reals:
  it is the parameter \<open>add\<close>, of which nothing is assumed.
\<close>

definition findHeaviestGroups :: "(real \<Rightarrow> real \<Rightarrow> real) \<Rightarrow> store \<Rightarrow> exception + HeaviestGroup list" where
  "findHeaviestGroups add db =
     try_catch
       (case personRepository_find_animals db of
          Inl error \<Rightarrow> Inl error
        | Inr persons' \<Rightarrow>
            let ownersWithTotalWeight =
                  map (\<lambda>person. \<lparr>HeaviestGroup.ownerId = person_id person,
                                  fullName = person_fullName person,
                                  totalWeight = foldl (\<lambda>sum animal. add sum (weight animal)) 0
                                                  (animals person)\<rparr>) persons';
                maxWeight = Math_max (map totalWeight ownersWithTotalWeight)
            in Inr (filter (\<lambda>owner. Num (totalWeight owner) = maxWeight) ownersWithTotalWeight))
       (\<lambda>error. Inl InternalServerErrorException)"

section \<open>TranslationHelper\<close>

text \<open>
  The translation service is a function from the request (the text \<open>q\<close> and the
  \<^verbatim>\<open>langpair\<close> of the URL) to what comes back: \<open>Rejected\<close> when \<^verbatim>\<open>fetch\<close> or
  \<^verbatim>\<open>response.json()\<close> throws, otherwise the JSON body, of which only
  \<^verbatim>\<open>data?.responseData?.translatedText\<close> is read (\<open>None\<close> when it is missing).
\<close>

record request =
  q :: string
  langpair :: string

datatype fetch_result = Rejected | Json "string option"

definition translate :: "(request \<Rightarrow> fetch_result) \<Rightarrow> string \<Rightarrow> string \<Rightarrow> string \<Rightarrow> string" where
  "translate fetch text toLang fromLang =
     (if text = [] then text
      else case fetch \<lparr>q = text, langpair = fromLang @ ''|'' @ toLang\<rparr> of
             Rejected \<Rightarrow> text
           | Json None \<Rightarrow> text
           | Json (Some translatedText) \<Rightarrow> if translatedText = [] then text else translatedText)"

text \<open>The call with the default languages: \<^verbatim>\<open>toLang = 'fr'\<close>, \<^verbatim>\<open>fromLang = 'en'\<close>.\<close>

definition translate_default :: "(request \<Rightarrow> fetch_result) \<Rightarrow> string \<Rightarrow> string" where
  "translate_default fetch text = translate fetch text ''fr'' ''en''"

section \<open>AnimalService and AnimalResolver: list and lookup\<close>

text \<open>
  The query joins every animal with its owner. The clause
  \<^verbatim>\<open>LOWER(animal.species) = :species\<close> with \<^verbatim>\<open>species.toLowerCase()\<close> is read as
  the equality of the two lower-cased strings. The resolver hands its three arguments
  to the service as they are.
\<close>

definition AnimalService_findAll ::
  "store \<Rightarrow> int js_arg \<Rightarrow> int js_arg \<Rightarrow> string js_arg \<Rightarrow> exception + PaginatedAnimals" where
  "AnimalService_findAll db start limit species' =
     try_catch
       (let query = map (loadOwner db) (animalTable db);
            query = (if truthy_string species'
                     then filter (\<lambda>animal. toLowerCase (species animal)
                                            = toLowerCase (nullish species' [])) query
                     else query)
        in case getManyAndCount db (Number start) (Number limit) query of
             Inl error \<Rightarrow> Inl error
           | Inr (animals', totalCount') \<Rightarrow>
               Inr \<lparr>PaginatedAnimals.animals = animals', totalCount = totalCount'\<rparr>)
       (\<lambda>error. Inl InternalServerErrorException)"

definition findAllAnimals ::
  "store \<Rightarrow> int js_arg \<Rightarrow> int js_arg \<Rightarrow> string js_arg \<Rightarrow> exception + PaginatedAnimals" where
  "findAllAnimals db start limit species' = AnimalService_findAll db start limit species'"

definition findOneWithOwner :: "(request \<Rightarrow> fetch_result) \<Rightarrow> store \<Rightarrow> int \<Rightarrow> exception + TranslatedAnimal" where
  "findOneWithOwner fetch db i =
     try_catch
       (case animalRepository_findOne_owner db i of
          Inl error \<Rightarrow> Inl error
        | Inr None \<Rightarrow> Inl NotFoundException
        | Inr (Some animal) \<Rightarrow>
            Inr (AnimalWithOwner.extend animal
                   (TranslatedAnimal.fields
                      (translate_default fetch (breed animal))
                      (translate_default fetch (toLowerCase (color animal)))
                      (translate_default fetch (species animal)))))
       (\<lambda>error. if error = NotFoundException then Inl error
                else Inl InternalServerErrorException)"

section \<open>AnimalService: create and update\<close>

text \<open>
  \<^verbatim>\<open>animalRepository.save(animal)\<close> of a new entity inserts a row under the next
  generated id; the entity comes back with its id and its owner.
\<close>

definition animalRepository_insert :: "store \<Rightarrow> CreateAnimalInput \<Rightarrow> Person \<Rightarrow> (exception + AnimalWithOwner) \<times> store" where
  "animalRepository_insert db data owner' =
     (if \<not> connected db then (Inl DriverError, db)
      else
        let row = \<lparr>animal_id = nextAnimalId db,
                   name = CreateAnimalInput.name data,
                   dateOfBirth = CreateAnimalInput.dateOfBirth data,
                   species = CreateAnimalInput.species data,
                   breed = CreateAnimalInput.breed data,
                   color = CreateAnimalInput.color data,
                   weight = CreateAnimalInput.weight data,
                   ownerId = Some (person_id owner')\<rparr>
        in (Inr (Animal.extend row (AnimalWithOwner.fields (Some owner'))),
            db\<lparr>animalTable := animalTable db @ [row], nextAnimalId := nextAnimalId db + 1\<rparr>))"

definition AnimalService_create :: "store \<Rightarrow> CreateAnimalInput \<Rightarrow> (exception + AnimalWithOwner) \<times> store" where
  "AnimalService_create db data =
     try_catch_store
       (case personRepository_findOneBy db (CreateAnimalInput.ownerId data) of
          Inl error \<Rightarrow> (Inl error, db)
        | Inr None \<Rightarrow> (Inl NotFoundException, db)
        | Inr (Some owner') \<Rightarrow> animalRepository_insert db data owner')
       (\<lambda>error. if error = NotFoundException then Inl error
                else Inl InternalServerErrorException)"

text \<open>\<^verbatim>\<open>if (data.ownerId)\<close>: an absent or null id is falsy, and so is the number 0.\<close>

fun truthy_int :: "int js_arg \<Rightarrow> bool" where
  "truthy_int (Given n) = (n \<noteq> 0)"
| "truthy_int _ = False"

text \<open>
  \<^verbatim>\<open>Object.assign(animal, data)\<close> on the columns. The \<^verbatim>\<open>ownerId\<close> it also copies
  is no column of the entity and is not saved.
\<close>

definition assign_animal :: "AnimalWithOwner \<Rightarrow> UpdateAnimalInput \<Rightarrow> AnimalWithOwner" where
  "assign_animal animal data =
     animal\<lparr>name := assigned (UpdateAnimalInput.name data) (name animal),
            dateOfBirth := assigned (UpdateAnimalInput.dateOfBirth data) (dateOfBirth animal),
            species := assigned (UpdateAnimalInput.species data) (species animal),
            breed := assigned (UpdateAnimalInput.breed data) (breed animal),
            color := assigned (UpdateAnimalInput.color data) (color animal),
            weight := assigned (UpdateAnimalInput.weight data) (weight animal)\<rparr>"

definition animal_nulls :: "UpdateAnimalInput \<Rightarrow> bool" where
  "animal_nulls data =
     (UpdateAnimalInput.name data = Null \<or> UpdateAnimalInput.dateOfBirth data = Null
      \<or> UpdateAnimalInput.species data = Null \<or> UpdateAnimalInput.breed data = Null
      \<or> UpdateAnimalInput.color data = Null \<or> UpdateAnimalInput.weight data = Null)"

text \<open>
  \<^verbatim>\<open>animalRepository.save(animal)\<close> of a loaded entity: its row takes the columns of
  the entity, and the foreign key follows \<^verbatim>\<open>animal.owner\<close>.
\<close>

definition animalRepository_save :: "store \<Rightarrow> bool \<Rightarrow> AnimalWithOwner \<Rightarrow> (exception + AnimalWithOwner) \<times> store" where
  "animalRepository_save db nulls animal =
     (if \<not> connected db \<or> nulls then (Inl DriverError, db)
      else
        let saved = (Animal.truncate animal)\<lparr>ownerId := map_option person_id (owner animal)\<rparr>
        in (Inr animal,
            db\<lparr>animalTable :=
                  map (\<lambda>row. if animal_id row = animal_id animal then saved else row)
                    (animalTable db)\<rparr>))"

definition AnimalService_update :: "store \<Rightarrow> int \<Rightarrow> UpdateAnimalInput \<Rightarrow> (exception + AnimalWithOwner) \<times> store" where
  "AnimalService_update db i data =
     try_catch_store
       (case animalRepository_findOne_owner db i of
          Inl error \<Rightarrow> (Inl error, db)
        | Inr None \<Rightarrow> (Inl NotFoundException, db)
        | Inr (Some animal) \<Rightarrow>
            (case (if truthy_int (UpdateAnimalInput.ownerId data)
                   then (case personRepository_findOneBy db (nullish (UpdateAnimalInput.ownerId data) 0) of
                           Inl error \<Rightarrow> Inl error
                         | Inr None \<Rightarrow> Inl NotFoundException
                         | Inr (Some owner') \<Rightarrow> Inr (animal\<lparr>owner := Some owner'\<rparr>))
                   else Inr animal) of
               Inl error \<Rightarrow> (Inl error, db)
             | Inr animal' \<Rightarrow>
                 animalRepository_save db (animal_nulls data) (assign_animal animal' data)))
       (\<lambda>error. if error = NotFoundException then Inl error
                else Inl InternalServerErrorException)"

section \<open>AnimalService: the aggregates\<close>

text \<open>
  \<^verbatim>\<open>findOldest\<close> has no \<^verbatim>\<open>try\<close>: what the repository throws goes to the caller
  as it is. Two dates compare by their time values, and \<^verbatim>\<open>toISOString\<close> is
  one-to-one on the dates a column holds, so the equality of the ISO strings is the
  equality of the time values.
\<close>

definition findOldest :: "store \<Rightarrow> exception + Animal list" where
  "findOldest db =
     (case animalRepository_find db of
        Inl error \<Rightarrow> Inl error
      | Inr animals' \<Rightarrow>
          (case animals' of
             [] \<Rightarrow> Inr []
           | first # _ \<Rightarrow>
               let oldestDate =
                     foldl (\<lambda>min' animal. if dateOfBirth animal < min' then dateOfBirth animal
                                           else min')
                       (dateOfBirth first) animals'
               in Inr (filter (\<lambda>animal. dateOfBirth animal = oldestDate) animals')))"

definition count_species :: "Animal list \<Rightarrow> js_object" where
  "count_species animals' =
     foldl (\<lambda>speciesCount animal.
              js_set speciesCount (species animal)
                (plus_one (or_zero (js_get speciesCount (species animal)))))
       [] animals'"

definition findMostCommonSpecies ::
  "(request \<Rightarrow> fetch_result) \<Rightarrow> store \<Rightarrow> exception + MostCommonSpecies list option" where
  "findMostCommonSpecies fetch db =
     try_catch
       (case animalRepository_find db of
          Inl error \<Rightarrow> Inl error
        | Inr animals' \<Rightarrow>
            if length animals' = 0 then Inr None
            else
              let speciesCount = count_species animals';
                  sorted' = Array_sort (\<lambda>a b. js_minus (snd b) (snd a))
                              (Object_entries speciesCount)
              in (case sorted' of
                    [] \<Rightarrow> Inl TypeError
                  | first # _ \<Rightarrow>
                      let topCount = snd first;
                          mostCommonSpecies = filter (\<lambda>(_, count'). count' = topCount) sorted'
                      in Inr (Some (map (\<lambda>(species', count').
                                           \<lparr>MostCommonSpecies.species = species',
                                            MostCommonSpecies.count = count',
                                            MostCommonSpecies.specieTranslated =
                                              translate_default fetch species'\<rparr>)
                                      mostCommonSpecies))))
       (\<lambda>error. Inl InternalServerErrorException)"

text \<open>
  The element of the result for one animal; \<^verbatim>\<open>animal.owner.firstName\<close> throws a
  \<^verbatim>\<open>TypeError\<close> when the animal has no owner.
\<close>

definition heaviest_of :: "AnimalWithOwner \<Rightarrow> exception + HeaviestAnimal" where
  "heaviest_of animal =
     (case owner animal of
        None \<Rightarrow> Inl TypeError
      | Some owner' \<Rightarrow>
          Inr \<lparr>animalId = animal_id animal,
               HeaviestAnimal.name = name animal,
               HeaviestAnimal.species = species animal,
               HeaviestAnimal.weight = weight animal,
               ownerFullName = person_fullName owner',
               HeaviestAnimal.ownerId = person_id owner'\<rparr>)"

text \<open>\<^verbatim>\<open>xs.map(f)\<close> when \<open>f\<close> can throw: the first exception ends the loop.\<close>

fun map_throwing :: "('a \<Rightarrow> exception + 'b) \<Rightarrow> 'a list \<Rightarrow> exception + 'b list" where
  "map_throwing f [] = Inr []"
| "map_throwing f (x # xs) =
     (case f x of
        Inl error \<Rightarrow> Inl error
      | Inr y \<Rightarrow> (case map_throwing f xs of Inl error \<Rightarrow> Inl error | Inr ys \<Rightarrow> Inr (y # ys)))"

definition findHeaviestAnimal :: "store \<Rightarrow> exception + HeaviestAnimal list option" where
  "findHeaviestAnimal db =
     try_catch
       (case animalRepository_find_owner db of
          Inl error \<Rightarrow> Inl error
        | Inr animals' \<Rightarrow>
            if length animals' = 0 then Inr None
            else
              let maxWeight = Math_max (map weight animals')
              in (case map_throwing heaviest_of
                         (filter (\<lambda>animal. Num (weight animal) = maxWeight) animals') of
                    Inl error \<Rightarrow> Inl error
                  | Inr heaviest \<Rightarrow> Inr (Some heaviest)))
       (\<lambda>error. Inl InternalServerErrorException)"

section \<open>Example stores\<close>

definition alice :: Person where
  "alice = \<lparr>person_id = 1, lastName = ''Martin'', firstName = ''Alice'',
            email = ''alice@example.org'', phoneNumber = ''0102030405''\<rparr>"

definition bob :: Person where
  "bob = \<lparr>person_id = 2, lastName = ''Durand'', firstName = ''Bob'',
          email = ''bob@example.org'', phoneNumber = ''0607080910''\<rparr>"

definition carol :: Person where
  "carol = \<lparr>person_id = 3, lastName = ''Petit'', firstName = ''Carol'',
            email = ''carol@example.org'', phoneNumber = ''0908070605''\<rparr>"

definition pet :: "int \<Rightarrow> string \<Rightarrow> int \<Rightarrow> real \<Rightarrow> int \<Rightarrow> Animal" where
  "pet i sp born w holder =
     \<lparr>animal_id = i, name = ''Pet'', dateOfBirth = born, species = sp, breed = ''Mixed'',
      color = ''Black'', weight = w, ownerId = Some holder\<rparr>"

text \<open>Three owners, one of them without a pet; ties on the oldest date and on the top weight.\<close>

definition example_store :: store where
  "example_store =
     \<lparr>personTable = [alice, bob, carol],
      animalTable = [pet 1 ''Cat'' 500 4 1, pet 2 ''dog'' 300 30 1, pet 3 ''cat'' 300 30 2,
                     pet 4 ''Dog'' 700 12 2, pet 5 ''cat'' 900 3 2],
      nextAnimalId = 6, connected = True\<rparr>"

definition petless_store :: store where
  "petless_store =
     \<lparr>personTable = [alice, bob], animalTable = [], nextAnimalId = 1, connected = True\<rparr>"

definition empty_store :: store where
  "empty_store = \<lparr>personTable = [], animalTable = [], nextAnimalId = 1, connected = True\<rparr>"

text \<open>Fifteen cats of one owner.\<close>

definition fifteen_pets :: store where
  "fifteen_pets =
     \<lparr>personTable = [alice],
      animalTable = map (\<lambda>i. pet i ''Cat'' (100 * i) 4 1)
                      [1, 2, 3, 4, 5, 6, 7, 8, 9, 10, 11, 12, 13, 14, 15],
      nextAnimalId = 16, connected = True\<rparr>"

text \<open>A translation service that is down, and one that answers.\<close>

definition fetch_down :: "request \<Rightarrow> fetch_result" where
  "fetch_down r = Rejected"

definition fetch_french :: "request \<Rightarrow> fetch_result" where
  "fetch_french r =
     (if langpair r = ''en|fr'' \<and> q r = ''black'' then Json (Some ''noir'')
      else if langpair r = ''en|fr'' \<and> q r = ''Cat'' then Json (Some ''Chat'')
      else Json None)"

text \<open>Inputs: an update that only names a new owner, a rename, a new pet for an owner.\<close>

definition reassign_to :: "int \<Rightarrow> UpdateAnimalInput" where
  "reassign_to i =
     \<lparr>UpdateAnimalInput.name = Undefined, UpdateAnimalInput.dateOfBirth = Undefined,
      UpdateAnimalInput.species = Undefined, UpdateAnimalInput.breed = Undefined,
      UpdateAnimalInput.color = Undefined, UpdateAnimalInput.weight = Undefined,
      UpdateAnimalInput.ownerId = Given i\<rparr>"

definition rename :: UpdatePersonInput where
  "rename =
     \<lparr>UpdatePersonInput.lastName = Given ''Dupont'', UpdatePersonInput.firstName = Undefined,
      UpdatePersonInput.email = Undefined, UpdatePersonInput.phoneNumber = Undefined\<rparr>"

definition new_pet :: "int \<Rightarrow> CreateAnimalInput" where
  "new_pet i =
     \<lparr>CreateAnimalInput.name = ''Rex'', CreateAnimalInput.dateOfBirth = 1000,
      CreateAnimalInput.species = ''dog'', CreateAnimalInput.breed = ''Beagle'',
      CreateAnimalInput.color = ''Brown'', CreateAnimalInput.weight = 9,
      CreateAnimalInput.ownerId = i\<rparr>"

text \<open>Stores whose only pet has a species named as a member of \<^verbatim>\<open>Object.prototype\<close>.\<close>

definition constructor_store :: store where
  "constructor_store =
     \<lparr>personTable = [alice], animalTable = [pet 1 ''constructor'' 500 4 1],
      nextAnimalId = 2, connected = True\<rparr>"

definition proto_store :: store where
  "proto_store =
     \<lparr>personTable = [alice], animalTable = [pet 1 ''__proto__'' 500 4 1],
      nextAnimalId = 2, connected = True\<rparr>"

section \<open>Notions used in the statements\<close>

text \<open>The pets of an owner, and the pets of a species whatever the case of its letters.\<close>

abbreviation ownedBy :: "store \<Rightarrow> Person \<Rightarrow> Animal list" where
  "ownedBy db p \<equiv> filter (\<lambda>a. ownerId a = Some (person_id p)) (animalTable db)"

abbreviation matching :: "string \<Rightarrow> Animal list \<Rightarrow> Animal list" where
  "matching sp as \<equiv> filter (\<lambda>a. toLowerCase (species a) = toLowerCase sp) as"

text \<open>
  How often a species occurs among pets; the keys that \<^verbatim>\<open>Object.prototype\<close> does not
  define; an object that holds exactly the counters \<open>f\<close>; the number in an entry.
\<close>

definition counted :: "js_object \<Rightarrow> (string \<Rightarrow> nat) \<Rightarrow> bool" where
  "counted obj f \<longleftrightarrow>
     distinct (map fst obj)
     \<and> (\<forall>k. map_of obj k = (if f k = 0 then None else Some (JNumber (f k))))"

definition entry_count :: "string \<times> jsval \<Rightarrow> nat" where
  "entry_count e = (case snd e of JNumber n \<Rightarrow> n | _ \<Rightarrow> 0)"

abbreviation occurrences :: "Animal list \<Rightarrow> string \<Rightarrow> nat" where
  "occurrences as s \<equiv> count_list (map species as) s"

abbreviation plain_key :: "string \<Rightarrow> bool" where
  "plain_key k \<equiv> map_of Object_prototype k = None"

text \<open>
  What a translated field holds for the text handed to the service, read off the
  answer to the request for that text with the language pair \<open>en|fr\<close>: the translated
  text when the answer carries one that is not empty; the text itself when the call is
  rejected, when the answer carries no translated text or an empty one, and when the
  text is empty.
\<close>

definition field_of_answer :: "(request \<Rightarrow> fetch_result) \<Rightarrow> string \<Rightarrow> string \<Rightarrow> bool" where
  "field_of_answer fetch txt field \<longleftrightarrow>
     (txt = [] \<longrightarrow> field = txt)
     \<and> (fetch \<lparr>q = txt, langpair = ''en|fr''\<rparr> = Rejected \<longrightarrow> field = txt)
     \<and> (fetch \<lparr>q = txt, langpair = ''en|fr''\<rparr> = Json None \<longrightarrow> field = txt)
     \<and> (fetch \<lparr>q = txt, langpair = ''en|fr''\<rparr> = Json (Some []) \<longrightarrow> field = txt)
     \<and> (\<forall>translated. txt \<noteq> [] \<and> translated \<noteq> []
            \<and> fetch \<lparr>q = txt, langpair = ''en|fr''\<rparr> = Json (Some translated)
          \<longrightarrow> field = translated)"

section \<open>Facts about the JavaScript helpers\<close>

lemma foldl_max_step_Num:
  "foldl max_step (Num m) xs = Num (fold max xs m)"
  by (induction xs arbitrary: m) (simp_all add: max.commute)

lemma Math_max_Nil: "Math_max [] = NegInfinity"
  by (simp add: Math_max_def)

lemma Math_max_Cons: "Math_max (x # xs) = Num (Max (set (x # xs)))"
  unfolding Max.set_eq_fold by (simp add: Math_max_def foldl_max_step_Num)

lemma Math_max_eq_Num_iff:
  "Num v = Math_max xs \<longleftrightarrow> v \<in> set xs \<and> (\<forall>w \<in> set xs. w \<le> v)"
proof (cases xs)
  case Nil
  then show ?thesis by (simp add: Math_max_Nil)
next
  case (Cons y ys)
  have "v = Max (set xs) \<longleftrightarrow> v \<in> set xs \<and> (\<forall>w \<in> set xs. w \<le> v)"
    using Cons by (metis List.finite_set Max_eqI Max_ge Max_in list.distinct(1) set_empty)
  then show ?thesis using Cons by (auto simp: Math_max_Cons)
qed

section \<open>Facts about the repositories\<close>

lemma loadAnimals_simps:
  "animals (loadAnimals db p) = ownedBy db p"
  "person_id (loadAnimals db p) = person_id p"
  "person_fullName (loadAnimals db p) = firstName p @ '' '' @ lastName p"
  by (simp_all add: loadAnimals_def Person.defs PersonWithAnimals.defs person_fullName_def)

lemma filter_Math_max_and:
  "filter (\<lambda>r. Num (f r) = Math_max (map f rs) \<and> P r) rs
     = filter (\<lambda>r. (\<forall>q \<in> set rs. f q \<le> f r) \<and> P r) rs"
  by (rule filter_cong) (auto simp: Math_max_eq_Num_iff)

lemma filter_Math_max:
  "filter (\<lambda>r. Num (f r) = Math_max (map f rs)) rs
     = filter (\<lambda>r. \<forall>q \<in> set rs. f q \<le> f r) rs"
  using filter_Math_max_and [of f rs "\<lambda>_. True"] by simp

lemma trim_Nil: "trim [] = []"
  by (simp add: trim_def)

section \<open>Top owners\<close>

text \<open>
  C6. When the store answers, \<open>findTopOwners\<close> returns, in table order, exactly the
  owners whose number of directly owned pets is not exceeded by any owner of the table,
  each with its id, its full name \<open>firstName + " " + lastName\<close> and that number. Owners
  without a pet take part: when no owner has a pet, every owner is returned, with count 0.
\<close>

theorem findTopOwners_ties:
  assumes "connected db"
  shows "findTopOwners db =
           Inr (filter (\<lambda>r. \<forall>q \<in> set (personTable db). length (ownedBy db q) \<le> TopOwner.count r)
                  (map (\<lambda>p. \<lparr>TopOwner.ownerId = person_id p,
                              fullName = firstName p @ '' '' @ lastName p,
                              count = length (ownedBy db p)\<rparr>) (personTable db)))
         \<and> ((\<forall>q \<in> set (personTable db). length (ownedBy db q) = 0) \<longrightarrow>
              findTopOwners db =
                Inr (map (\<lambda>p. \<lparr>TopOwner.ownerId = person_id p,
                              fullName = firstName p @ '' '' @ lastName p,
                              count = 0\<rparr>) (personTable db)))"
proof -
  let ?mk = "\<lambda>p. \<lparr>TopOwner.ownerId = person_id p,
                   fullName = firstName p @ '' '' @ lastName p,
                   count = length (ownedBy db p)\<rparr>"
  let ?rs = "map ?mk (personTable db)"
  have run: "findTopOwners db =
      Inr (filter (\<lambda>r. Num (TopOwner.count r) = Math_max (map TopOwner.count ?rs)) ?rs)"
    using assms
    by (simp add: findTopOwners_def personRepository_find_animals_def try_catch_def Let_def
        loadAnimals_simps comp_def)
  have first: "findTopOwners db =
      Inr (filter (\<lambda>r. \<forall>q \<in> set (personTable db). length (ownedBy db q) \<le> TopOwner.count r) ?rs)"
    unfolding run filter_Math_max by simp
  have "filter (\<lambda>r. \<forall>q \<in> set (personTable db). length (ownedBy db q) \<le> TopOwner.count r) ?rs
          = map (\<lambda>p. \<lparr>TopOwner.ownerId = person_id p,
                      fullName = firstName p @ '' '' @ lastName p,
                      count = 0\<rparr>) (personTable db)"
    if "\<forall>q \<in> set (personTable db). length (ownedBy db q) = 0"
    using that by (simp add: filter_map comp_def)
  with first show ?thesis by simp
qed

theorem findTopOwners_ties_witness:
  "connected example_store
   \<and> findTopOwners example_store
       = Inr [\<lparr>TopOwner.ownerId = 2, fullName = ''Bob Durand'', count = 3\<rparr>]
   \<and> connected petless_store
   \<and> map (\<lambda>q. length (ownedBy petless_store q)) (personTable petless_store) = [0, 0]
   \<and> findTopOwners petless_store
       = Inr [\<lparr>TopOwner.ownerId = 1, fullName = ''Alice Martin'', count = 0\<rparr>,
              \<lparr>TopOwner.ownerId = 2, fullName = ''Bob Durand'', count = 0\<rparr>]"
proof -
  have c1: "connected example_store" and c2: "connected petless_store"
    by (simp_all add: example_store_def petless_store_def)
  have z: "\<forall>q \<in> set (personTable petless_store). length (ownedBy petless_store q) = 0"
    by (simp add: petless_store_def alice_def bob_def)
  from findTopOwners_ties [OF c1]
  have r1: "findTopOwners example_store
       = Inr [\<lparr>TopOwner.ownerId = 2, fullName = ''Bob Durand'', count = 3\<rparr>]"
    by (simp add: example_store_def pet_def alice_def bob_def carol_def)
  from findTopOwners_ties [OF c2] z
  have r2: "findTopOwners petless_store
       = Inr [\<lparr>TopOwner.ownerId = 1, fullName = ''Alice Martin'', count = 0\<rparr>,
              \<lparr>TopOwner.ownerId = 2, fullName = ''Bob Durand'', count = 0\<rparr>]"
    by (simp add: petless_store_def alice_def bob_def)
  have "map (\<lambda>q. length (ownedBy petless_store q)) (personTable petless_store) = [0, 0]"
    by (simp add: petless_store_def alice_def bob_def)
  with c1 c2 r1 r2 show ?thesis by blast
qed


text \<open>
  C5. When the store answers and the species is not blank, \<open>findTopOwnersBySpecies\<close>
  counts for each owner the pets it owns whose species equals the given one after both
  are put in lower case, and returns, in table order, exactly the owners whose count is
  not exceeded by any owner and is not zero, each with its id, full name and count. When
  no pet of the store has the species, the result is the empty list.
\<close>

theorem findTopOwnersBySpecies_ties:
  assumes "connected db" and "trim sp \<noteq> []"
  shows "findTopOwnersBySpecies db sp =
           Inr (filter (\<lambda>r. (\<forall>q \<in> set (personTable db).
                                 length (matching sp (ownedBy db q)) \<le> TopOwner.count r)
                             \<and> TopOwner.count r > 0)
                  (map (\<lambda>p. \<lparr>TopOwner.ownerId = person_id p,
                              fullName = firstName p @ '' '' @ lastName p,
                              count = length (matching sp (ownedBy db p))\<rparr>) (personTable db)))
         \<and> (matching sp (animalTable db) = [] \<longrightarrow> findTopOwnersBySpecies db sp = Inr [])"
proof -
  let ?mk = "\<lambda>p. \<lparr>TopOwner.ownerId = person_id p,
                   fullName = firstName p @ '' '' @ lastName p,
                   count = length (matching sp (ownedBy db p))\<rparr>"
  let ?rs = "map ?mk (personTable db)"
  from assms(2) have nonblank: "sp \<noteq> []"
    using trim_Nil by blast
  have run: "findTopOwnersBySpecies db sp =
      Inr (filter (\<lambda>r. Num (TopOwner.count r) = Math_max (map TopOwner.count ?rs)
                        \<and> TopOwner.count r > 0) ?rs)"
    using assms nonblank
    by (simp add: findTopOwnersBySpecies_def personRepository_find_animals_def try_catch_def
        Let_def loadAnimals_simps comp_def)
  have first: "findTopOwnersBySpecies db sp =
      Inr (filter (\<lambda>r. (\<forall>q \<in> set (personTable db).
                          length (matching sp (ownedBy db q)) \<le> TopOwner.count r)
                      \<and> TopOwner.count r > 0) ?rs)"
    unfolding run filter_Math_max_and by simp
  have "filter (\<lambda>r. (\<forall>q \<in> set (personTable db).
                          length (matching sp (ownedBy db q)) \<le> TopOwner.count r)
                      \<and> TopOwner.count r > 0) ?rs = []"
    if none: "matching sp (animalTable db) = []"
  proof -
    have "matching sp (ownedBy db p) = []" for p
      using none by (auto simp: filter_empty_conv)
    then show ?thesis by (simp add: filter_empty_conv)
  qed
  with first show ?thesis by simp
qed

theorem findTopOwnersBySpecies_ties_witness:
  "connected example_store \<and> trim ''CAT'' \<noteq> [] \<and> trim ''bird'' \<noteq> []
   \<and> findTopOwnersBySpecies example_store ''CAT''
       = Inr [\<lparr>TopOwner.ownerId = 2, fullName = ''Bob Durand'', count = 2\<rparr>]
   \<and> matching ''bird'' (animalTable example_store) = []
   \<and> findTopOwnersBySpecies example_store ''bird'' = Inr []"
proof -
  have c: "connected example_store"
    by (simp add: example_store_def)
  have t1: "trim ''CAT'' \<noteq> []" and t2: "trim ''bird'' \<noteq> []"
    by (simp_all add: trim_def isWhiteSpace_def)
  have none: "matching ''bird'' (animalTable example_store) = []"
    by (simp add: example_store_def pet_def toLowerCase_def)
  from findTopOwnersBySpecies_ties [OF c t1]
  have r1: "findTopOwnersBySpecies example_store ''CAT''
       = Inr [\<lparr>TopOwner.ownerId = 2, fullName = ''Bob Durand'', count = 2\<rparr>]"
    by (simp add: example_store_def pet_def alice_def bob_def carol_def toLowerCase_def)
  from findTopOwnersBySpecies_ties [OF c t2] none
  have r2: "findTopOwnersBySpecies example_store ''bird'' = Inr []"
    by blast
  from c t1 t2 r1 none r2 show ?thesis by blast
qed

section \<open>No owner at all\<close>

text \<open>
  C10. When the store answers and holds no owner, \<open>findTopOwnersBySpecies\<close> (for a
  species that is not blank) and \<open>findHeaviestGroups\<close> both return the empty list and
  do not fail, whatever the addition of doubles gives: the maximum over no count and
  over no total weight is \<open>-Infinity\<close>, which no owner equals.
\<close>

theorem no_owner_empty_result:
  assumes "connected db" and "personTable db = []" and "trim sp \<noteq> []"
  shows "findTopOwnersBySpecies db sp = Inr [] \<and> findHeaviestGroups add db = Inr []
         \<and> Math_max (map TopOwner.count []) = NegInfinity
         \<and> Math_max (map totalWeight []) = NegInfinity"
proof -
  from assms(3) have "sp \<noteq> []"
    using trim_Nil by blast
  with assms show ?thesis
    by (simp add: findTopOwnersBySpecies_def findHeaviestGroups_def
        personRepository_find_animals_def try_catch_def Math_max_Nil)
qed

theorem no_owner_empty_result_witness:
  "connected empty_store \<and> personTable empty_store = [] \<and> trim ''cat'' \<noteq> []
   \<and> findTopOwnersBySpecies empty_store ''cat'' = Inr []
   \<and> findHeaviestGroups (+) empty_store = Inr []"
proof -
  have c: "connected empty_store" and e: "personTable empty_store = []"
    by (simp_all add: empty_store_def)
  have t: "trim ''cat'' \<noteq> []"
    by (simp add: trim_def isWhiteSpace_def)
  from no_owner_empty_result [OF c e t, of "(+)"] c e t show ?thesis by blast
qed

section \<open>Oldest and heaviest pets\<close>

lemma oldest_date_fold:
  "foldl (\<lambda>min' animal. if dateOfBirth animal < min' then dateOfBirth animal else min') m xs
     = Min (insert m (dateOfBirth ` set xs))"
proof (induction xs arbitrary: m)
  case Nil
  then show ?case by simp
next
  case (Cons x xs)
  have "(if dateOfBirth x < m then dateOfBirth x else m) = min m (dateOfBirth x)"
    by (simp add: min_def)
  moreover have "Min (insert (min m (dateOfBirth x)) (dateOfBirth ` set xs))
                   = Min (insert m (insert (dateOfBirth x) (dateOfBirth ` set xs)))"
    by (cases "set xs = {}") (simp_all add: min.assoc min.commute)
  ultimately show ?case
    using Cons.IH by simp
qed

text \<open>
  C2. When the store answers: for an empty table \<open>findOldest\<close> returns the empty
  list; for a table that is not empty it returns, in table order, exactly the pets whose
  date of birth is the least date of birth of the table (every pet at that date, no
  other), and this list is not empty.
\<close>

theorem findOldest_ties:
  assumes "connected db"
  shows "(animalTable db = [] \<longrightarrow> findOldest db = Inr [])
         \<and> (animalTable db \<noteq> [] \<longrightarrow>
              findOldest db =
                Inr (filter (\<lambda>a. dateOfBirth a = Min (dateOfBirth ` set (animalTable db)))
                       (animalTable db))
              \<and> filter (\<lambda>a. dateOfBirth a = Min (dateOfBirth ` set (animalTable db)))
                  (animalTable db) \<noteq> [])"
proof (cases "animalTable db")
  case Nil
  with assms show ?thesis
    by (simp add: findOldest_def animalRepository_find_def)
next
  case (Cons x xs)
  let ?least = "Min (dateOfBirth ` set (animalTable db))"
  have "insert (dateOfBirth x) (dateOfBirth ` set (x # xs)) = dateOfBirth ` set (x # xs)"
    by auto
  then have run: "findOldest db = Inr (filter (\<lambda>a. dateOfBirth a = ?least) (animalTable db))"
    using assms Cons
    by (simp add: findOldest_def animalRepository_find_def oldest_date_fold del: Min_insert)
  have "?least \<in> dateOfBirth ` set (animalTable db)"
    using Cons by (intro Min_in) simp_all
  then have "filter (\<lambda>a. dateOfBirth a = ?least) (animalTable db) \<noteq> []"
    by (auto simp: filter_empty_conv)
  with run Cons show ?thesis by simp
qed

theorem findOldest_ties_witness:
  "connected example_store \<and> animalTable example_store \<noteq> []
   \<and> findOldest example_store = Inr [pet 2 ''dog'' 300 30 1, pet 3 ''cat'' 300 30 2]
   \<and> connected petless_store \<and> animalTable petless_store = []
   \<and> findOldest petless_store = Inr []"
proof -
  have c1: "connected example_store" and c2: "connected petless_store"
    and n1: "animalTable example_store \<noteq> []" and n2: "animalTable petless_store = []"
    by (simp_all add: example_store_def petless_store_def)
  have least: "Min (dateOfBirth ` set (animalTable example_store)) = 300"
    by (simp add: example_store_def pet_def)
  from findOldest_ties [OF c1] n1
  have "findOldest example_store =
          Inr (filter (\<lambda>a. dateOfBirth a = Min (dateOfBirth ` set (animalTable example_store)))
                 (animalTable example_store))"
    by blast
  then have r1: "findOldest example_store = Inr [pet 2 ''dog'' 300 30 1, pet 3 ''cat'' 300 30 2]"
    unfolding least by (simp add: example_store_def pet_def)
  from findOldest_ties [OF c2] n2 have r2: "findOldest petless_store = Inr []"
    by blast
  from c1 c2 n1 n2 r1 r2 show ?thesis by blast
qed

lemma map_throwing_map:
  assumes "\<forall>x \<in> set xs. f (h x) = Inr (g x)"
  shows "map_throwing f (map h xs) = Inr (map g xs)"
  using assms by (induction xs) simp_all

lemma loadOwner_simps:
  "animal_id (loadOwner db a) = animal_id a"
  "name (loadOwner db a) = name a"
  "species (loadOwner db a) = species a"
  "weight (loadOwner db a) = weight a"
  "breed (loadOwner db a) = breed a"
  "color (loadOwner db a) = color a"
  "dateOfBirth (loadOwner db a) = dateOfBirth a"
  by (simp_all add: loadOwner_def Animal.defs AnimalWithOwner.defs)

text \<open>
  C3. When the store answers: for an empty table \<open>findHeaviestAnimal\<close> returns
  \<open>null\<close> (\<open>None\<close>), which is not the empty list; for a table that is not empty and
  whose pets all come with their owner (\<open>holder\<close> names it), it returns, in table
  order, one result for every pet whose weight is the greatest weight of the table and
  for no other, with the id and the full name \<open>firstName + " " + lastName\<close> of the
  owner of the pet.
\<close>

theorem findHeaviestAnimal_ties:
  assumes "connected db"
    and "\<forall>a \<in> set (animalTable db). owner (loadOwner db a) = Some (holder a)"
  shows "(animalTable db = [] \<longrightarrow> findHeaviestAnimal db = Inr None)
         \<and> (animalTable db \<noteq> [] \<longrightarrow>
              findHeaviestAnimal db =
                Inr (Some (map (\<lambda>a. \<lparr>animalId = animal_id a,
                                      HeaviestAnimal.name = name a,
                                      HeaviestAnimal.species = species a,
                                      HeaviestAnimal.weight = weight a,
                                      ownerFullName = firstName (holder a) @ '' '' @ lastName (holder a),
                                      HeaviestAnimal.ownerId = person_id (holder a)\<rparr>)
                            (filter (\<lambda>a. weight a = Max (weight ` set (animalTable db)))
                               (animalTable db)))))
         \<and> Inr None \<noteq> (Inr (Some []) :: exception + HeaviestAnimal list option)"
proof (cases "animalTable db")
  case Nil
  with assms show ?thesis
    by (simp add: findHeaviestAnimal_def animalRepository_find_owner_def try_catch_def)
next
  case (Cons x xs)
  let ?top = "Max (weight ` set (animalTable db))"
  let ?mk = "\<lambda>a. \<lparr>animalId = animal_id a,
                   HeaviestAnimal.name = name a,
                   HeaviestAnimal.species = species a,
                   HeaviestAnimal.weight = weight a,
                   ownerFullName = firstName (holder a) @ '' '' @ lastName (holder a),
                   HeaviestAnimal.ownerId = person_id (holder a)\<rparr>"
  have ws: "map (weight \<circ> loadOwner db) (animalTable db) = map weight (animalTable db)"
    by (simp add: loadOwner_simps comp_def)
  have ne: "animalTable db \<noteq> []"
    using Cons by simp
  have top: "Math_max (map weight (animalTable db)) = Num ?top"
    using Cons by (simp add: Math_max_Cons del: Max_insert)
  have sel: "filter (\<lambda>animal. weight animal = ?top) (map (loadOwner db) (animalTable db))
               = map (loadOwner db) (filter (\<lambda>a. weight a = ?top) (animalTable db))"
    by (simp add: filter_map comp_def loadOwner_simps)
  have each: "\<forall>a \<in> set (filter (\<lambda>a. weight a = ?top) (animalTable db)).
                heaviest_of (loadOwner db a) = Inr (?mk a)"
    using assms(2) by (simp add: heaviest_of_def loadOwner_simps person_fullName_def)
  have mapped: "map_throwing heaviest_of
                  (map (loadOwner db) (filter (\<lambda>a. weight a = ?top) (animalTable db)))
                = Inr (map ?mk (filter (\<lambda>a. weight a = ?top) (animalTable db)))"
    using each by (rule map_throwing_map [where f = heaviest_of and h = "loadOwner db"])
  have "findHeaviestAnimal db =
          Inr (Some (map ?mk (filter (\<lambda>a. weight a = ?top) (animalTable db))))"
    using assms(1) ne
    by (simp add: findHeaviestAnimal_def animalRepository_find_owner_def try_catch_def
        ws top sel mapped)
  with Cons show ?thesis by simp
qed

theorem findHeaviestAnimal_ties_witness:
  "connected example_store \<and> animalTable example_store \<noteq> []
   \<and> map (\<lambda>a. owner (loadOwner example_store a)) (animalTable example_store)
       = [Some alice, Some alice, Some bob, Some bob, Some bob]
   \<and> findHeaviestAnimal example_store =
       Inr (Some [\<lparr>animalId = 2, HeaviestAnimal.name = ''Pet'', HeaviestAnimal.species = ''dog'',
                   HeaviestAnimal.weight = 30, ownerFullName = ''Alice Martin'',
                   HeaviestAnimal.ownerId = 1\<rparr>,
                  \<lparr>animalId = 3, HeaviestAnimal.name = ''Pet'', HeaviestAnimal.species = ''cat'',
                   HeaviestAnimal.weight = 30, ownerFullName = ''Bob Durand'',
                   HeaviestAnimal.ownerId = 2\<rparr>])
   \<and> connected petless_store \<and> animalTable petless_store = []
   \<and> findHeaviestAnimal petless_store = Inr None"
proof -
  let ?holder = "\<lambda>a. if ownerId a = Some 1 then alice else bob"
  have c1: "connected example_store" and c2: "connected petless_store"
    and n1: "animalTable example_store \<noteq> []" and n2: "animalTable petless_store = []"
    by (simp_all add: example_store_def petless_store_def)
  have owners: "map (\<lambda>a. owner (loadOwner example_store a)) (animalTable example_store)
       = [Some alice, Some alice, Some bob, Some bob, Some bob]"
    by (simp add: example_store_def pet_def loadOwner_def Animal.defs AnimalWithOwner.defs
        alice_def bob_def carol_def)
  have h1: "\<forall>a \<in> set (animalTable example_store).
              owner (loadOwner example_store a) = Some (?holder a)"
    by (simp add: example_store_def pet_def loadOwner_def Animal.defs AnimalWithOwner.defs
        alice_def bob_def carol_def)
  have h2: "\<forall>a \<in> set (animalTable petless_store).
              owner (loadOwner petless_store a) = Some (?holder a)"
    by (simp add: petless_store_def)
  have top: "Max (weight ` set (animalTable example_store)) = 30"
    by (simp add: example_store_def pet_def)
  from findHeaviestAnimal_ties [OF c1 h1] n1
  have "findHeaviestAnimal example_store =
          Inr (Some (map (\<lambda>a. \<lparr>animalId = animal_id a,
                                HeaviestAnimal.name = name a,
                                HeaviestAnimal.species = species a,
                                HeaviestAnimal.weight = weight a,
                                ownerFullName = firstName (?holder a) @ '' '' @ lastName (?holder a),
                                HeaviestAnimal.ownerId = person_id (?holder a)\<rparr>)
                      (filter (\<lambda>a. weight a = Max (weight ` set (animalTable example_store)))
                         (animalTable example_store))))"
    by blast
  then have r1: "findHeaviestAnimal example_store =
       Inr (Some [\<lparr>animalId = 2, HeaviestAnimal.name = ''Pet'', HeaviestAnimal.species = ''dog'',
                   HeaviestAnimal.weight = 30, ownerFullName = ''Alice Martin'',
                   HeaviestAnimal.ownerId = 1\<rparr>,
                  \<lparr>animalId = 3, HeaviestAnimal.name = ''Pet'', HeaviestAnimal.species = ''cat'',
                   HeaviestAnimal.weight = 30, ownerFullName = ''Bob Durand'',
                   HeaviestAnimal.ownerId = 2\<rparr>])"
    unfolding top by (simp add: example_store_def pet_def alice_def bob_def)
  from findHeaviestAnimal_ties [OF c2 h2] n2
  have r2: "findHeaviestAnimal petless_store = Inr None"
    by blast
  from c1 c2 n1 n2 owners r1 r2 show ?thesis by blast
qed

section \<open>Failure kinds\<close>

lemma PersonService_update_never_not_found:
  "fst (PersonService_update db i data) \<noteq> Inl NotFoundException"
  by (simp add: PersonService_update_def try_catch_store_def try_catch_def split: sum.splits)

lemma PersonService_findOne_not_found:
  assumes "connected db" and "find (\<lambda>p. person_id p = i) (personTable db) = None"
  shows "PersonService_findOne db i = Inl NotFoundException"
  using assms by (simp add: PersonService_findOne_def personRepository_findOneBy_def try_catch_def)

lemma findTopOwnersBySpecies_blank:
  assumes "trim sp = []"
  shows "findTopOwnersBySpecies db sp = Inl BadRequestException"
  using assms by (simp add: findTopOwnersBySpecies_def try_catch_def)

lemma findOneWithOwner_not_found:
  assumes "connected db" and "find (\<lambda>a. animal_id a = i) (animalTable db) = None"
  shows "findOneWithOwner fetch db i = Inl NotFoundException"
  using assms
  by (simp add: findOneWithOwner_def animalRepository_findOne_owner_def try_catch_def)

lemma store_failure_is_internal:
  assumes "\<not> connected db"
  shows "findTopOwners db = Inl InternalServerErrorException"
    and "findHeaviestGroups add db = Inl InternalServerErrorException"
    and "findHeaviestAnimal db = Inl InternalServerErrorException"
    and "findMostCommonSpecies fetch db = Inl InternalServerErrorException"
    and "PersonService_findOne db i = Inl InternalServerErrorException"
    and "findOneWithOwner fetch db i = Inl InternalServerErrorException"
    and "fst (AnimalService_create db new) = Inl InternalServerErrorException"
    and "fst (AnimalService_update db i change) = Inl InternalServerErrorException"
  using assms
  by (simp_all add: findTopOwners_def findHeaviestGroups_def findHeaviestAnimal_def
      findMostCommonSpecies_def PersonService_findOne_def findOneWithOwner_def
      AnimalService_create_def AnimalService_update_def
      personRepository_find_animals_def animalRepository_find_owner_def
      animalRepository_find_def personRepository_findOneBy_def
      animalRepository_findOne_owner_def try_catch_store_def try_catch_def)

text \<open>
  C8, at the failing input. No owner of the example store has id 99. The lookup
  \<open>PersonService_findOne\<close> fails with the not-found kind, but \<open>PersonService_update\<close>
  of the same id fails with the internal kind: its handler turns every exception,
  \<open>NotFoundException\<close> included, into \<open>InternalServerErrorException\<close>. And
  \<open>findOldest\<close>, which has no handler, passes the exception of a store that does not
  answer to its caller unchanged.
\<close>

theorem PersonService_update_hides_not_found:
  "PersonService_findOne example_store 99 = Inl NotFoundException
   \<and> PersonService_update example_store 99 rename
        = (Inl InternalServerErrorException, example_store)
   \<and> findOldest (example_store\<lparr>connected := False\<rparr>) = Inl DriverError"
  by (simp add: PersonService_findOne_def PersonService_update_def personRepository_findOneBy_def
      try_catch_store_def try_catch_def findOldest_def animalRepository_find_def
      example_store_def alice_def bob_def carol_def)


section \<open>Creating a pet and changing its owner\<close>

lemma AnimalService_create_missing_owner:
  assumes "connected db"
    and "find (\<lambda>p. person_id p = CreateAnimalInput.ownerId data) (personTable db) = None"
  shows "AnimalService_create db data = (Inl NotFoundException, db)"
  using assms
  by (simp add: AnimalService_create_def personRepository_findOneBy_def try_catch_store_def
      try_catch_def)

lemma AnimalService_update_missing_owner:
  assumes "connected db"
    and "find (\<lambda>a. animal_id a = i) (animalTable db) = Some a"
    and "UpdateAnimalInput.ownerId data = Given j" and "j \<noteq> 0"
    and "find (\<lambda>p. person_id p = j) (personTable db) = None"
  shows "AnimalService_update db i data = (Inl NotFoundException, db)"
  using assms
  by (simp add: AnimalService_update_def animalRepository_findOne_owner_def
      personRepository_findOneBy_def try_catch_store_def try_catch_def)

lemma AnimalService_update_existing_owner:
  assumes "connected db"
    and "find (\<lambda>a. animal_id a = i) (animalTable db) = Some a"
    and "UpdateAnimalInput.ownerId data = Given j" and "j \<noteq> 0"
    and "find (\<lambda>p. person_id p = j) (personTable db) = Some p"
    and "\<not> animal_nulls data"
  shows "\<exists>r db'. AnimalService_update db i data = (Inr r, db')
           \<and> owner r = Some p \<and> person_id p = j
           \<and> personTable db' = personTable db
           \<and> map animal_id (animalTable db') = map animal_id (animalTable db)
           \<and> (\<forall>row \<in> set (animalTable db'). animal_id row = i \<longrightarrow> ownerId row = Some j)
           \<and> (\<forall>row \<in> set (animalTable db'). animal_id row \<noteq> i \<longrightarrow> row \<in> set (animalTable db))"
proof -
  from assms(5) have pj: "person_id p = j"
    by (auto simp: find_Some_iff)
  from assms(2) have ai: "animal_id a = i"
    by (auto simp: find_Some_iff)
  let ?e = "assign_animal ((loadOwner db a)\<lparr>owner := Some p\<rparr>) data"
  have id_e: "animal_id ?e = i"
    by (simp add: assign_animal_def loadOwner_def Animal.defs AnimalWithOwner.defs ai)
  have own_e: "owner ?e = Some p"
    by (simp add: assign_animal_def)
  have id_t: "animal_id (Animal.truncate ?e) = i"
    using id_e by (simp add: Animal.defs)
  have run: "AnimalService_update db i data = animalRepository_save db False ?e"
    using assms
    by (simp add: AnimalService_update_def animalRepository_findOne_owner_def
        personRepository_findOneBy_def try_catch_store_def try_catch_def
        animalRepository_save_def Let_def)
  show ?thesis
    unfolding run using assms(1) pj
    by (auto simp: animalRepository_save_def Let_def id_e id_t own_e comp_def)
qed

text \<open>
  C7, at the failing input. No owner has id 0 (the lookup of owner 0 finds nothing,
  and creating a pet for owner 0 fails with not-found and leaves the store as it is),
  but the update of pet 1 that names owner 0 does not fail: \<^verbatim>\<open>if (data.ownerId)\<close> is
  false for 0, the owner is not looked up, and the pet is saved and returned with the
  owner it had.
\<close>

theorem AnimalService_update_owner_zero:
  "personRepository_findOneBy example_store 0 = Inr None
   \<and> AnimalService_create example_store (new_pet 0) = (Inl NotFoundException, example_store)
   \<and> AnimalService_update example_store 1 (reassign_to 0)
        = (Inr (loadOwner example_store (pet 1 ''Cat'' 500 4 1)), example_store)
   \<and> owner (loadOwner example_store (pet 1 ''Cat'' 500 4 1)) = Some alice"
  by (simp add: AnimalService_update_def AnimalService_create_def
      animalRepository_findOne_owner_def personRepository_findOneBy_def
      animalRepository_save_def assign_animal_def animal_nulls_def
      try_catch_store_def try_catch_def reassign_to_def new_pet_def
      loadOwner_def Animal.defs AnimalWithOwner.defs
      example_store_def pet_def alice_def bob_def carol_def)


section \<open>Paged lists\<close>

lemma AnimalService_findAll_page:
  assumes "connected db" and "0 \<le> start" and "0 < limit"
  shows "findAllAnimals db (Given start) (Given limit) sp =
           (let found = map (loadOwner db)
                          (if truthy_string sp then matching (nullish sp []) (animalTable db)
                           else animalTable db)
            in Inr \<lparr>PaginatedAnimals.animals = take (nat limit) (drop (nat start) found),
                    totalCount = length found\<rparr>)"
  using assms
  by (simp add: findAllAnimals_def AnimalService_findAll_def try_catch_def Let_def
      filter_map comp_def loadOwner_simps)

lemma paginatedPersons_page:
  assumes "connected db" and "0 \<le> nullish start 0" and "0 < nullish limit 12"
  shows "paginatedPersons db start limit =
           Inr \<lparr>persons = take (nat (nullish limit 12))
                             (drop (nat (nullish start 0)) (map (loadAnimals db) (personTable db))),
                totalCount = length (personTable db)\<rparr>"
  using assms
  by (simp add: paginatedPersons_def PersonService_findAll_def try_catch_def)

lemma fifteen_pets_last_page:
  "findAllAnimals fifteen_pets (Given 10) (Given 12) Undefined =
     Inr \<lparr>PaginatedAnimals.animals =
            map (\<lambda>i. loadOwner fifteen_pets (pet i ''Cat'' (100 * i) 4 1)) [11, 12, 13, 14, 15],
          totalCount = 15\<rparr>"
  by (simp add: findAllAnimals_def AnimalService_findAll_def try_catch_def fifteen_pets_def)

text \<open>
  C1, at the failing input. On the store of fifteen pets, the list of pets asked
  without \<open>start\<close> and \<open>limit\<close> is not the page of offset 0 and size 12:
  \<^verbatim>\<open>Number(undefined)\<close> is \<^verbatim>\<open>NaN\<close>, which \<^verbatim>\<open>skip\<close> refuses, and the
  request ends in the internal failure. With 0 and 12 given, the same query returns
  the first twelve pets and the total 15; and the list of owners, whose resolver
  substitutes 0 and 12, answers the request without arguments as the one with them.
\<close>

theorem findAllAnimals_no_default:
  "findAllAnimals fifteen_pets Undefined Undefined Undefined = Inl InternalServerErrorException
   \<and> findAllAnimals fifteen_pets (Given 0) (Given 12) Undefined =
       Inr \<lparr>PaginatedAnimals.animals =
              map (\<lambda>i. loadOwner fifteen_pets (pet i ''Cat'' (100 * i) 4 1))
                [1, 2, 3, 4, 5, 6, 7, 8, 9, 10, 11, 12],
            totalCount = 15\<rparr>
   \<and> paginatedPersons fifteen_pets Undefined Undefined
       = paginatedPersons fifteen_pets (Given 0) (Given 12)
   \<and> paginatedPersons fifteen_pets Undefined Undefined
       = Inr \<lparr>persons = [loadAnimals fifteen_pets alice], totalCount = 1\<rparr>"
  by (simp add: findAllAnimals_def AnimalService_findAll_def paginatedPersons_def
      PersonService_findAll_def try_catch_def fifteen_pets_def)


section \<open>Translated fields of a pet\<close>

lemma translate_rejected:
  assumes "fetch \<lparr>q = text, langpair = fromLang @ ''|'' @ toLang\<rparr> = Rejected"
  shows "translate fetch text toLang fromLang = text"
  using assms by (simp add: translate_def)

lemma translate_answered:
  assumes "text \<noteq> []" and "translated \<noteq> []"
    and "fetch \<lparr>q = text, langpair = fromLang @ ''|'' @ toLang\<rparr> = Json (Some translated)"
  shows "translate fetch text toLang fromLang = translated"
  using assms by (simp add: translate_def)

text \<open>
  C9 as stated fails. With the translation service down, pet 1 of the example store,
  whose color is stored as \<open>Black\<close>, comes back with \<open>colorTranslated = black\<close>:
  what is substituted is the text handed to the service, which for the color is the
  lower-cased text and not the stored one.
\<close>

theorem color_fallback_counterexample:
  "findOneWithOwner fetch_down example_store 1 =
     Inr \<lparr>animal_id = 1, name = ''Pet'', dateOfBirth = 500, species = ''Cat'',
          breed = ''Mixed'', color = ''Black'', weight = 4, ownerId = Some 1,
          owner = Some alice,
          breedTranslated = ''Mixed'', colorTranslated = ''black'', specieTranslated = ''Cat''\<rparr>
   \<and> fetch_down \<lparr>q = ''black'', langpair = ''en|fr''\<rparr> = Rejected
   \<and> ''black'' \<noteq> ''Black''"
  by (simp add: findOneWithOwner_def animalRepository_findOne_owner_def try_catch_def
      translate_default_def translate_def toLowerCase_def fetch_down_def
      loadOwner_def Animal.defs AnimalWithOwner.defs TranslatedAnimal.defs
      example_store_def pet_def alice_def bob_def carol_def)

lemma translate_field_of_answer:
  "field_of_answer fetch txt (translate fetch txt ''fr'' ''en'')"
  by (simp add: field_of_answer_def translate_def)

text \<open>
  C9, amended. When the store answers and holds the pet, \<open>findOneWithOwner\<close> never
  fails, whatever the translation service does. It returns the pet with its owner and
  three more fields. Each field is what the service answers to the request for one
  text with the language pair \<open>en|fr\<close>: the breed as stored, the color in lower
  case, the species as stored. The field holds the translated text of the answer when
  there is one and it is not empty. When the call is rejected (or the answer has no
  translated text, or the text is empty), the text handed to the service is
  substituted: the stored breed, the stored species, and the lower-cased color.
\<close>

theorem findOneWithOwner_translations:
  assumes "connected db" and "find (\<lambda>a. animal_id a = i) (animalTable db) = Some a"
  shows "\<exists>breed' color' species'.
           findOneWithOwner fetch db i =
             Inr (AnimalWithOwner.extend (loadOwner db a)
                    (TranslatedAnimal.fields breed' color' species'))
           \<and> field_of_answer fetch (breed a) breed'
           \<and> field_of_answer fetch (toLowerCase (color a)) color'
           \<and> field_of_answer fetch (species a) species'"
proof -
  have run: "findOneWithOwner fetch db i =
          Inr (AnimalWithOwner.extend (loadOwner db a)
                 (TranslatedAnimal.fields
                    (translate fetch (breed a) ''fr'' ''en'')
                    (translate fetch (toLowerCase (color a)) ''fr'' ''en'')
                    (translate fetch (species a) ''fr'' ''en'')))"
    using assms
    by (simp add: findOneWithOwner_def animalRepository_findOne_owner_def try_catch_def
        translate_default_def loadOwner_simps)
  have b: "field_of_answer fetch (breed a) (translate fetch (breed a) ''fr'' ''en'')"
    by (rule translate_field_of_answer)
  have c: "field_of_answer fetch (toLowerCase (color a))
             (translate fetch (toLowerCase (color a)) ''fr'' ''en'')"
    by (rule translate_field_of_answer)
  have s: "field_of_answer fetch (species a) (translate fetch (species a) ''fr'' ''en'')"
    by (rule translate_field_of_answer)
  show ?thesis
    using run b c s by blast
qed

theorem findOneWithOwner_translations_witness:
  "connected example_store
   \<and> find (\<lambda>a. animal_id a = 1) (animalTable example_store) = Some (pet 1 ''Cat'' 500 4 1)
   \<and> fetch_french \<lparr>q = ''Mixed'', langpair = ''en|fr''\<rparr> = Json None
   \<and> fetch_french \<lparr>q = ''black'', langpair = ''en|fr''\<rparr> = Json (Some ''noir'')
   \<and> fetch_french \<lparr>q = ''Cat'', langpair = ''en|fr''\<rparr> = Json (Some ''Chat'')
   \<and> findOneWithOwner fetch_french example_store 1 =
       Inr \<lparr>animal_id = 1, name = ''Pet'', dateOfBirth = 500, species = ''Cat'',
            breed = ''Mixed'', color = ''Black'', weight = 4, ownerId = Some 1,
            owner = Some alice,
            breedTranslated = ''Mixed'', colorTranslated = ''noir'', specieTranslated = ''Chat''\<rparr>
   \<and> fetch_down \<lparr>q = ''Mixed'', langpair = ''en|fr''\<rparr> = Rejected
   \<and> fetch_down \<lparr>q = ''black'', langpair = ''en|fr''\<rparr> = Rejected
   \<and> fetch_down \<lparr>q = ''Cat'', langpair = ''en|fr''\<rparr> = Rejected
   \<and> findOneWithOwner fetch_down example_store 1 =
       Inr \<lparr>animal_id = 1, name = ''Pet'', dateOfBirth = 500, species = ''Cat'',
            breed = ''Mixed'', color = ''Black'', weight = 4, ownerId = Some 1,
            owner = Some alice,
            breedTranslated = ''Mixed'', colorTranslated = ''black'', specieTranslated = ''Cat''\<rparr>"
proof -
  let ?a = "pet 1 ''Cat'' 500 4 1"
  have c: "connected example_store"
    by (simp add: example_store_def)
  have f: "find (\<lambda>a. animal_id a = 1) (animalTable example_store) = Some ?a"
    by (simp add: example_store_def pet_def)
  have texts: "breed ?a = ''Mixed''" "toLowerCase (color ?a) = ''black''" "species ?a = ''Cat''"
    by (simp_all add: pet_def toLowerCase_def)
  have french: "fetch_french \<lparr>q = ''Mixed'', langpair = ''en|fr''\<rparr> = Json None"
    "fetch_french \<lparr>q = ''black'', langpair = ''en|fr''\<rparr> = Json (Some ''noir'')"
    "fetch_french \<lparr>q = ''Cat'', langpair = ''en|fr''\<rparr> = Json (Some ''Chat'')"
    by (simp_all add: fetch_french_def)
  have down: "fetch_down \<lparr>q = ''Mixed'', langpair = ''en|fr''\<rparr> = Rejected"
    "fetch_down \<lparr>q = ''black'', langpair = ''en|fr''\<rparr> = Rejected"
    "fetch_down \<lparr>q = ''Cat'', langpair = ''en|fr''\<rparr> = Rejected"
    by (simp_all add: fetch_down_def)
  have loaded: "AnimalWithOwner.extend (loadOwner example_store ?a)
                  (TranslatedAnimal.fields b c s)
       = \<lparr>animal_id = 1, name = ''Pet'', dateOfBirth = 500, species = ''Cat'',
          breed = ''Mixed'', color = ''Black'', weight = 4, ownerId = Some 1,
          owner = Some alice,
          breedTranslated = b, colorTranslated = c, specieTranslated = s\<rparr>" for b c s
    by (simp add: loadOwner_def Animal.defs AnimalWithOwner.defs TranslatedAnimal.defs
        example_store_def pet_def alice_def bob_def carol_def)
  from findOneWithOwner_translations [OF c f, of fetch_french]
  obtain b c' s where r1: "findOneWithOwner fetch_french example_store 1 =
        Inr (AnimalWithOwner.extend (loadOwner example_store ?a) (TranslatedAnimal.fields b c' s))"
    and b: "field_of_answer fetch_french (breed ?a) b"
    and c': "field_of_answer fetch_french (toLowerCase (color ?a)) c'"
    and s: "field_of_answer fetch_french (species ?a) s"
    by blast
  from b have "b = ''Mixed''"
    unfolding texts field_of_answer_def using french(1) by simp
  moreover from c' have "c' = ''noir''"
    unfolding texts field_of_answer_def using french(2) by simp
  moreover from s have "s = ''Chat''"
    unfolding texts field_of_answer_def using french(3) by simp
  ultimately have answered: "findOneWithOwner fetch_french example_store 1 =
       Inr \<lparr>animal_id = 1, name = ''Pet'', dateOfBirth = 500, species = ''Cat'',
            breed = ''Mixed'', color = ''Black'', weight = 4, ownerId = Some 1,
            owner = Some alice,
            breedTranslated = ''Mixed'', colorTranslated = ''noir'', specieTranslated = ''Chat''\<rparr>"
    using r1 by (simp add: loaded)
  from findOneWithOwner_translations [OF c f, of fetch_down]
  obtain b c' s where r2: "findOneWithOwner fetch_down example_store 1 =
        Inr (AnimalWithOwner.extend (loadOwner example_store ?a) (TranslatedAnimal.fields b c' s))"
    and b: "field_of_answer fetch_down (breed ?a) b"
    and c': "field_of_answer fetch_down (toLowerCase (color ?a)) c'"
    and s: "field_of_answer fetch_down (species ?a) s"
    by blast
  from b have "b = ''Mixed''"
    unfolding texts field_of_answer_def using down(1) by simp
  moreover from c' have "c' = ''black''"
    unfolding texts field_of_answer_def using down(2) by simp
  moreover from s have "s = ''Cat''"
    unfolding texts field_of_answer_def using down(3) by simp
  ultimately have rejected: "findOneWithOwner fetch_down example_store 1 =
       Inr \<lparr>animal_id = 1, name = ''Pet'', dateOfBirth = 500, species = ''Cat'',
            breed = ''Mixed'', color = ''Black'', weight = 4, ownerId = Some 1,
            owner = Some alice,
            breedTranslated = ''Mixed'', colorTranslated = ''black'', specieTranslated = ''Cat''\<rparr>"
    using r2 by (simp add: loaded)
  from c f french answered down rejected show ?thesis
    by blast
qed

section \<open>Most common species\<close>

text \<open>
  C4, at the failing inputs. A store whose only pet has the species \<open>constructor\<close>:
  the counter starts from the inherited \<^verbatim>\<open>Object.prototype.constructor\<close>, and the
  species comes back with a text as its count, not with 1. A store whose only pet has
  the species \<open>__proto__\<close>: the counter is never stored, the list of entries is empty,
  and the operation fails with the internal failure although there is a pet.
\<close>

theorem findMostCommonSpecies_inherited_key:
  "findMostCommonSpecies fetch_down constructor_store =
     Inr (Some [\<lparr>MostCommonSpecies.species = ''constructor'',
                 MostCommonSpecies.count = JString ''function Object() { [native code] }1'',
                 MostCommonSpecies.specieTranslated = ''constructor''\<rparr>])
   \<and> findMostCommonSpecies fetch_down proto_store = Inl InternalServerErrorException"
  by (simp add: findMostCommonSpecies_def animalRepository_find_def try_catch_def
      count_species_def js_get_def js_set_def Object_prototype_def native_function_def
      Object_entries_def arrayIndex_def isDigit_def Array_sort_def
      translate_default_def translate_def fetch_down_def
      constructor_store_def proto_store_def pet_def)

subsection \<open>Counting on keys that are not inherited\<close>

lemma proto_not_plain: "\<not> plain_key ''__proto__''"
  by (simp add: Object_prototype_def)

lemma map_of_replace:
  "map_of (map (\<lambda>(k, old). if k = key then (k, v) else (k, old)) obj) k' =
     (if k' = key then (if key \<in> fst ` set obj then Some v else None) else map_of obj k')"
proof (induction obj)
  case Nil
  then show ?case by simp
next
  case (Cons e obj)
  obtain k0 v0 where e: "e = (k0, v0)"
    by (cases e)
  show ?case
    using Cons.IH by (cases "key \<in> fst ` set obj"; cases "k' = key") (auto simp: e)
qed

lemma fst_replace:
  "map (fst \<circ> (\<lambda>(k, old). if k = key then (k, v) else (k, old))) obj = map fst obj"
  by (induction obj) auto

lemma counted_step:
  assumes "counted obj f" and "plain_key key"
  shows "counted (js_set obj key (plus_one (or_zero (js_get obj key)))) (f(key := Suc (f key)))"
proof (cases "f key = 0")
  case True
  with assms(1) have absent: "map_of obj key = None"
    by (simp add: counted_def)
  then have fresh: "key \<notin> fst ` set obj"
    by (simp add: map_of_eq_None_iff)
  from assms(2) proto_not_plain have "key \<noteq> ''__proto__''"
    by auto
  with absent fresh assms(2)
  have "js_set obj key (plus_one (or_zero (js_get obj key))) = obj @ [(key, JNumber 1)]"
    by (simp add: js_set_def js_get_def)
  moreover have "counted (obj @ [(key, JNumber 1)]) (f(key := Suc (f key)))"
    using assms(1) True fresh absent
    by (auto simp: counted_def map_add_def split: option.splits)
  ultimately show ?thesis by simp
next
  case False
  with assms(1) have present: "map_of obj key = Some (JNumber (f key))"
    by (simp add: counted_def)
  then have known: "key \<in> fst ` set obj"
    by (metis map_of_eq_None_iff option.distinct(1))
  from assms(2) proto_not_plain have "key \<noteq> ''__proto__''"
    by auto
  with present known
  have "js_set obj key (plus_one (or_zero (js_get obj key)))
          = map (\<lambda>(k, old). if k = key then (k, JNumber (Suc (f key))) else (k, old)) obj"
    by (simp add: js_set_def js_get_def)
  moreover have "counted (map (\<lambda>(k, old). if k = key then (k, JNumber (Suc (f key))) else (k, old)) obj)
                   (f(key := Suc (f key)))"
    using assms(1) known
    by (simp add: counted_def map_of_replace fst_replace)
  ultimately show ?thesis by simp
qed

lemma counted_foldl:
  assumes "counted obj f" and "\<forall>a \<in> set as. plain_key (species a)"
  shows "counted (foldl (\<lambda>speciesCount animal.
                           js_set speciesCount (species animal)
                             (plus_one (or_zero (js_get speciesCount (species animal)))))
                    obj as)
           (\<lambda>k. f k + occurrences as k)"
  using assms
proof (induction as arbitrary: obj f)
  case Nil
  then show ?case by simp
next
  case (Cons a as)
  let ?f = "f(species a := Suc (f (species a)))"
  let ?obj = "js_set obj (species a) (plus_one (or_zero (js_get obj (species a))))"
  have step: "counted ?obj ?f"
    by (rule counted_step) (use Cons.prems in simp_all)
  have rest: "\<forall>a \<in> set as. plain_key (species a)"
    using Cons.prems by simp
  have same: "(\<lambda>k. ?f k + occurrences as k) = (\<lambda>k. f k + occurrences (a # as) k)"
    by (rule ext) simp
  from Cons.IH [OF step rest] show ?case
    unfolding same by simp
qed

lemma counted_count_species:
  assumes "\<forall>a \<in> set as. plain_key (species a)"
  shows "counted (count_species as) (occurrences as)"
proof -
  have "counted [] (\<lambda>k. 0)"
    by (simp add: counted_def)
  from counted_foldl [OF this assms] show ?thesis
    by (simp add: count_species_def)
qed

lemma counted_entries:
  assumes "counted obj f"
  shows "(k, v) \<in> set obj \<longleftrightarrow> 0 < f k \<and> v = JNumber (f k)"
proof -
  from assms have "distinct (map fst obj)"
    by (simp add: counted_def)
  then have "(k, v) \<in> set obj \<longleftrightarrow> map_of obj k = Some v"
    by simp
  with assms show ?thesis
    by (auto simp: counted_def)
qed


subsection \<open>Entries and their sorting\<close>

lemma set_Object_entries: "set (Object_entries obj) = set obj"
  by (auto simp: Object_entries_def)

lemma distinct_Object_entries: "distinct obj \<Longrightarrow> distinct (Object_entries obj)"
  by (auto simp: Object_entries_def)

lemma set_sort_insert: "set (sort_insert c x ys) = insert x (set ys)"
  by (induction ys) auto

lemma distinct_sort_insert: "distinct (sort_insert c x ys) \<longleftrightarrow> x \<notin> set ys \<and> distinct ys"
  by (induction ys) (auto simp: set_sort_insert)

lemma set_Array_sort: "set (Array_sort c xs) = set xs"
  by (induction xs) (simp_all add: Array_sort_def set_sort_insert)

lemma distinct_Array_sort: "distinct (Array_sort c xs) \<longleftrightarrow> distinct xs"
proof (induction xs)
  case Nil
  then show ?case by (simp add: Array_sort_def)
next
  case (Cons x xs)
  have "Array_sort c (x # xs) = sort_insert c x (Array_sort c xs)"
    by (simp add: Array_sort_def)
  with Cons show ?case
    by (simp add: distinct_sort_insert set_Array_sort)
qed

lemma sort_insert_top:
  assumes "\<exists>n. snd x = JNumber n" and "\<forall>e \<in> set ys. \<exists>n. snd e = JNumber n"
    and "\<forall>e \<in> set ys. entry_count e \<le> entry_count (hd ys)"
  shows "\<forall>e \<in> set (sort_insert (\<lambda>a b. js_minus (snd b) (snd a)) x ys).
           entry_count e \<le> entry_count (hd (sort_insert (\<lambda>a b. js_minus (snd b) (snd a)) x ys))"
proof (cases ys)
  case Nil
  then show ?thesis by simp
next
  case (Cons y rest)
  from assms(1) obtain n where n: "snd x = JNumber n"
    by blast
  from assms(2) Cons obtain m where m: "snd y = JNumber m"
    by auto
  show ?thesis
  proof (cases "m \<le> n")
    case True
    with assms(3) Cons n m show ?thesis
      by (auto simp: entry_count_def)
  next
    case False
    with assms(3) Cons n m show ?thesis
      by (auto simp: entry_count_def set_sort_insert)
  qed
qed

lemma Array_sort_top:
  assumes "\<forall>e \<in> set xs. \<exists>n. snd e = JNumber n"
  shows "\<forall>e \<in> set (Array_sort (\<lambda>a b. js_minus (snd b) (snd a)) xs).
           entry_count e \<le> entry_count (hd (Array_sort (\<lambda>a b. js_minus (snd b) (snd a)) xs))"
  using assms
proof (induction xs)
  case Nil
  then show ?case by (simp add: Array_sort_def)
next
  case (Cons x xs)
  let ?ys = "Array_sort (\<lambda>a b. js_minus (snd b) (snd a)) xs"
  have step: "Array_sort (\<lambda>a b. js_minus (snd b) (snd a)) (x # xs)
                = sort_insert (\<lambda>a b. js_minus (snd b) (snd a)) x ?ys"
    by (simp add: Array_sort_def)
  have "\<exists>n. snd x = JNumber n" and "\<forall>e \<in> set ?ys. \<exists>n. snd e = JNumber n"
    using Cons.prems by (simp_all add: set_Array_sort)
  moreover have "\<forall>e \<in> set ?ys. entry_count e \<le> entry_count (hd ?ys)"
    using Cons by simp
  ultimately show ?case
    unfolding step by (rule sort_insert_top)
qed


subsection \<open>The most common species when no species is named as an inherited member\<close>

text \<open>
  When the store answers, holds a pet, and no species is the name of a member of
  \<^verbatim>\<open>Object.prototype\<close>, the operation returns a list that is not empty, names no
  species twice, and holds exactly the species (compared as stored) that occur most
  often, each with the number of its occurrences and its translation.
\<close>

lemma findMostCommonSpecies_plain_keys:
  assumes "connected db" and "animalTable db \<noteq> []"
    and "\<forall>a \<in> set (animalTable db). plain_key (species a)"
  shows "\<exists>rs. findMostCommonSpecies fetch db = Inr (Some rs)
           \<and> rs \<noteq> [] \<and> distinct (map MostCommonSpecies.species rs)
           \<and> (\<forall>r. r \<in> set rs \<longleftrightarrow>
                 (\<exists>a \<in> set (animalTable db).
                    r = \<lparr>MostCommonSpecies.species = species a,
                         MostCommonSpecies.count = JNumber (occurrences (animalTable db) (species a)),
                         MostCommonSpecies.specieTranslated = translate_default fetch (species a)\<rparr>
                    \<and> (\<forall>b \<in> set (animalTable db).
                          occurrences (animalTable db) (species b)
                            \<le> occurrences (animalTable db) (species a))))"
proof -
  let ?as = "animalTable db"
  let ?occ = "occurrences ?as"
  let ?obj = "count_species ?as"
  let ?sorted = "Array_sort (\<lambda>a b. js_minus (snd b) (snd a)) (Object_entries ?obj)"
  let ?mk = "\<lambda>(species', count').
               \<lparr>MostCommonSpecies.species = species',
                MostCommonSpecies.count = count',
                MostCommonSpecies.specieTranslated = translate_default fetch species'\<rparr>"
  have cnt: "counted ?obj ?occ"
    using assms(3) by (rule counted_count_species)
  have mem: "(k, v) \<in> set ?sorted \<longleftrightarrow> 0 < ?occ k \<and> v = JNumber (?occ k)" for k v
    using counted_entries [OF cnt] by (simp add: set_Array_sort set_Object_entries)
  have seen: "0 < ?occ k \<longleftrightarrow> (\<exists>a \<in> set ?as. species a = k)" for k
    using count_list_0_iff [of "map species ?as" k] by auto
  from assms(2) obtain a0 where "a0 \<in> set ?as"
    by (cases ?as) auto
  with seen mem have "(species a0, JNumber (?occ (species a0))) \<in> set ?sorted"
    by blast
  then obtain first rest where sorted: "?sorted = first # rest"
    by (cases ?sorted) auto
  obtain k1 where first: "first = (k1, JNumber (?occ k1))" and pos1: "0 < ?occ k1"
    using mem [of "fst first" "snd first"] sorted
    by (metis list.set_intros(1) prod.collapse)
  have numbers: "\<forall>e \<in> set (Object_entries ?obj). \<exists>n. snd e = JNumber n"
    using counted_entries [OF cnt] by (auto simp: set_Object_entries)
  have "\<forall>e \<in> set ?sorted. entry_count e \<le> entry_count (hd ?sorted)"
    using numbers by (rule Array_sort_top)
  then have top: "?occ k \<le> ?occ k1" for k
    using mem [of k "JNumber (?occ k)"] sorted first
    by (cases "?occ k = 0") (force simp: entry_count_def)+
  let ?chosen = "filter (\<lambda>(_, count'). count' = snd first) ?sorted"
  have run: "findMostCommonSpecies fetch db = Inr (Some (map ?mk ?chosen))"
    using assms(1,2) sorted
    by (simp add: findMostCommonSpecies_def animalRepository_find_def try_catch_def Let_def)
  have "distinct ?obj"
    using cnt by (auto simp: counted_def distinct_map)
  then have "distinct ?sorted"
    by (simp add: distinct_Array_sort distinct_Object_entries)
  moreover have "inj_on fst (set ?sorted)"
    using mem by (auto simp: inj_on_def)
  ultimately have "distinct (map fst ?sorted)"
    by (simp add: distinct_map)
  then have "distinct (map fst ?chosen)"
    by (rule distinct_map_filter)
  moreover have "MostCommonSpecies.species \<circ> ?mk = fst"
    by (auto simp: fun_eq_iff)
  ultimately have dist: "distinct (map MostCommonSpecies.species (map ?mk ?chosen))"
    by simp
  have "first \<in> set ?chosen"
    using sorted by (simp add: first)
  then have "?chosen \<noteq> []"
    by (metis empty_iff list.set(1))
  then have nonempty: "map ?mk ?chosen \<noteq> []"
    by simp
  have chosen: "r \<in> set (map ?mk ?chosen) \<longleftrightarrow>
                  (\<exists>k. 0 < ?occ k \<and> ?occ k = ?occ k1
                       \<and> r = \<lparr>MostCommonSpecies.species = k,
                               MostCommonSpecies.count = JNumber (?occ k),
                               MostCommonSpecies.specieTranslated = translate_default fetch k\<rparr>)" for r
    using mem by (auto simp: first image_iff)
  have "r \<in> set (map ?mk ?chosen) \<longleftrightarrow>
          (\<exists>a \<in> set ?as.
             r = \<lparr>MostCommonSpecies.species = species a,
                  MostCommonSpecies.count = JNumber (?occ (species a)),
                  MostCommonSpecies.specieTranslated = translate_default fetch (species a)\<rparr>
             \<and> (\<forall>b \<in> set ?as. ?occ (species b) \<le> ?occ (species a)))" (is "?L \<longleftrightarrow> ?R") for r
  proof
    assume ?L
    with chosen obtain k where k: "0 < ?occ k" "?occ k = ?occ k1"
      and r: "r = \<lparr>MostCommonSpecies.species = k,
                   MostCommonSpecies.count = JNumber (?occ k),
                   MostCommonSpecies.specieTranslated = translate_default fetch k\<rparr>"
      by blast
    from k(1) seen obtain a where "a \<in> set ?as" "species a = k"
      by blast
    moreover have "\<forall>b \<in> set ?as. ?occ (species b) \<le> ?occ k"
      using top k(2) by simp
    ultimately show ?R
      using r by blast
  next
    assume ?R
    then obtain a where a: "a \<in> set ?as"
      and r: "r = \<lparr>MostCommonSpecies.species = species a,
                   MostCommonSpecies.count = JNumber (?occ (species a)),
                   MostCommonSpecies.specieTranslated = translate_default fetch (species a)\<rparr>"
      and most: "\<forall>b \<in> set ?as. ?occ (species b) \<le> ?occ (species a)"
      by blast
    from pos1 seen obtain b where "b \<in> set ?as" "species b = k1"
      by blast
    with most have "?occ k1 \<le> ?occ (species a)"
      by blast
    with top [of "species a"] have "?occ (species a) = ?occ k1"
      by simp
    moreover have "0 < ?occ (species a)"
      using a seen by blast
    ultimately show ?L
      using chosen r by blast
  qed
  with run dist nonempty show ?thesis
    by blast
qed

end
